theory Spec2Isabelle
  imports Complex_Main "HOL-Library.AList"
begin

section \<open>Python values\<close>

text \<open>
  The agents exchange payloads of type \<^verbatim>\<open>Dict[str, Any]\<close>. A payload is an association
  list from keys to dynamically typed values; the values are those a JSON document can
  hold. \<open>PNum r\<close> is a number of value \<open>r\<close>, an integer or a finite float; \<open>PInf True\<close>,
  \<open>PInf False\<close> and \<open>PNaN\<close> are the floats \<^verbatim>\<open>inf\<close>, \<^verbatim>\<open>-inf\<close> and \<^verbatim>\<open>nan\<close>. Strings are
  byte strings, a character outside ASCII being its UTF-8 bytes.
\<close>

datatype pyval =
    PNone
  | PBool bool
  | PNum real
  | PInf bool
  | PNaN
  | PStr string
  | PList "pyval list"
  | PDict "(string \<times> pyval) list"

type_synonym pydict = "(string \<times> pyval) list"

text \<open>
  Exceptions are values. \<open>Raised msg\<close> is an exception raised by a collaborator (the
  language-model provider, a caller-supplied transform) with message \<open>msg\<close>; the others
  are raised by the interpreter.
\<close>

datatype pyexn =
    TypeError
  | AttributeError
  | ValueError
  | ZeroDivisionError
  | OverflowError
  | Raised string

text \<open>\<^verbatim>\<open>d.get(k, default)\<close> and \<^verbatim>\<open>d[k] = v\<close> (an existing key keeps its position).\<close>

definition py_get :: "pydict \<Rightarrow> string \<Rightarrow> pyval \<Rightarrow> pyval" where
  "py_get d k dflt = (case map_of d k of None \<Rightarrow> dflt | Some v \<Rightarrow> v)"

definition py_set :: "pydict \<Rightarrow> string \<Rightarrow> pyval \<Rightarrow> pydict" where
  "py_set d k v = AList.update k v d"

text \<open>
  What a number is in arithmetic and comparisons (\<^verbatim>\<open>True\<close> is 1): a value, an infinity
  with its sign (\<open>Infty True\<close> is the positive one), or not a number. \<open>as_real\<close> is the
  value of a finite number.
\<close>

datatype pyfloat = Fin real | Infty bool | NaN

fun as_float :: "pyval \<Rightarrow> pyfloat option" where
  "as_float (PBool b) = Some (Fin (if b then 1 else 0))"
| "as_float (PNum r) = Some (Fin r)"
| "as_float (PInf s) = Some (Infty s)"
| "as_float PNaN = Some NaN"
| "as_float _ = None"

fun as_real :: "pyval \<Rightarrow> real option" where
  "as_real (PBool b) = Some (if b then 1 else 0)"
| "as_real (PNum r) = Some r"
| "as_real _ = None"

text \<open>
  \<^verbatim>\<open>x < y\<close> and \<^verbatim>\<open>x == y\<close> on numbers: every comparison with \<^verbatim>\<open>nan\<close> is false.
\<close>

fun float_lt :: "pyfloat \<Rightarrow> pyfloat \<Rightarrow> bool" where
  "float_lt (Fin a) (Fin b) = (a < b)"
| "float_lt (Fin a) (Infty t) = t"
| "float_lt (Infty s) (Fin b) = (\<not> s)"
| "float_lt (Infty s) (Infty t) = (\<not> s \<and> t)"
| "float_lt _ _ = False"

fun float_eq :: "pyfloat \<Rightarrow> pyfloat \<Rightarrow> bool" where
  "float_eq (Fin a) (Fin b) = (a = b)"
| "float_eq (Infty s) (Infty t) = (s = t)"
| "float_eq _ _ = False"

definition float_le :: "pyfloat \<Rightarrow> pyfloat \<Rightarrow> bool" where
  "float_le x y = (float_lt x y \<or> float_eq x y)"

fun truthy :: "pyval \<Rightarrow> bool" where
  "truthy PNone = False"
| "truthy (PBool b) = b"
| "truthy (PNum r) = (r \<noteq> 0)"
| "truthy (PInf s) = True"
| "truthy PNaN = True"
| "truthy (PStr s) = (s \<noteq> [])"
| "truthy (PList xs) = (xs \<noteq> [])"
| "truthy (PDict d) = (d \<noteq> [])"

text \<open>
  \<^verbatim>\<open>a == b\<close>. Numbers compare by value (\<^verbatim>\<open>True == 1\<close>), lists element by element,
  dictionaries key by key whatever the order of their entries. The values are compared,
  not the identity of the objects that hold them.
\<close>

fun py_eq :: "pyval \<Rightarrow> pyval \<Rightarrow> bool" where
  "py_eq PNone PNone = True"
| "py_eq (PStr s) (PStr t) = (s = t)"
| "py_eq (PList xs) (PList ys) = list_all2 py_eq xs ys"
| "py_eq (PDict d) (PDict e) =
     (list_all (\<lambda>(k, v). case map_of e k of None \<Rightarrow> False | Some w \<Rightarrow> py_eq v w) d \<and>
      list_all (\<lambda>(k, w). map_of d k \<noteq> None) e)"
| "py_eq a b = (case (as_float a, as_float b) of (Some x, Some y) \<Rightarrow> float_eq x y | _ \<Rightarrow> False)"

text \<open>
  \<^verbatim>\<open>a < b\<close> (\<open>strict\<close>) and \<^verbatim>\<open>a <= b\<close>: defined between two numbers, two strings and two
  lists (decided at the first pair of unequal elements, else by length); any other pair
  raises \<^verbatim>\<open>TypeError\<close>.
\<close>

fun lex_less :: "string \<Rightarrow> string \<Rightarrow> bool" where
  "lex_less [] [] = False"
| "lex_less [] (y # ys) = True"
| "lex_less (x # xs) [] = False"
| "lex_less (x # xs) (y # ys) =
     ((of_char x :: nat) < of_char y \<or> (x = y \<and> lex_less xs ys))"

fun py_cmp :: "bool \<Rightarrow> pyval \<Rightarrow> pyval \<Rightarrow> pyexn + bool"
  and py_cmp_list :: "bool \<Rightarrow> pyval list \<Rightarrow> pyval list \<Rightarrow> pyexn + bool" where
  "py_cmp strict (PList xs) (PList ys) = py_cmp_list strict xs ys"
| "py_cmp strict (PStr s) (PStr t) = Inr (lex_less s t \<or> (\<not> strict \<and> s = t))"
| "py_cmp strict a b =
     (case (as_float a, as_float b) of
        (Some x, Some y) \<Rightarrow> Inr (if strict then float_lt x y else float_le x y)
      | _ \<Rightarrow> Inl TypeError)"
| "py_cmp_list strict [] [] = Inr (\<not> strict)"
| "py_cmp_list strict [] (y # ys) = Inr True"
| "py_cmp_list strict (x # xs) [] = Inr False"
| "py_cmp_list strict (x # xs) (y # ys) =
     (if py_eq x y then py_cmp_list strict xs ys else py_cmp strict x y)"

definition py_lt :: "pyval \<Rightarrow> pyval \<Rightarrow> pyexn + bool" where
  "py_lt a b = py_cmp True a b"

definition py_le :: "pyval \<Rightarrow> pyval \<Rightarrow> pyexn + bool" where
  "py_le a b = py_cmp False a b"

text \<open>\<^verbatim>\<open>a > b\<close> is decided as \<^verbatim>\<open>b < a\<close>.\<close>

definition py_gt :: "pyval \<Rightarrow> pyval \<Rightarrow> pyexn + bool" where
  "py_gt a b = py_cmp True b a"

text \<open>\<^verbatim>\<open>p in s\<close> on strings: \<open>p\<close> occurs in \<open>s\<close> as a contiguous run.\<close>

fun startswith :: "string \<Rightarrow> string \<Rightarrow> bool" where
  "startswith s [] = True"
| "startswith [] (p # ps) = False"
| "startswith (c # cs) (p # ps) = (c = p \<and> startswith cs ps)"

fun occurs_in :: "string \<Rightarrow> string \<Rightarrow> bool" where
  "occurs_in p [] = (p = [])"
| "occurs_in p (c # cs) = (startswith (c # cs) p \<or> occurs_in p cs)"

text \<open>
  \<^verbatim>\<open>x in c\<close> for a dynamically typed container: a list is searched with \<^verbatim>\<open>==\<close>, a string
  for a substring, a dictionary for a key (a list or a dictionary is not hashable).
\<close>

definition py_in :: "pyval \<Rightarrow> pyval \<Rightarrow> pyexn + bool" where
  "py_in x c =
     (case c of
        PList ys \<Rightarrow> Inr (list_ex (py_eq x) ys)
      | PStr t \<Rightarrow> (case x of PStr s \<Rightarrow> Inr (occurs_in s t) | _ \<Rightarrow> Inl TypeError)
      | PDict d \<Rightarrow>
          (case x of
             PStr s \<Rightarrow> Inr (map_of d s \<noteq> None)
           | PList _ \<Rightarrow> Inl TypeError
           | PDict _ \<Rightarrow> Inl TypeError
           | _ \<Rightarrow> Inr False)
      | _ \<Rightarrow> Inl TypeError)"

text \<open>
  \<^verbatim>\<open>str(v)\<close>, as an f-string interpolates it. The text of a number, a list or a
  dictionary is that of the interpreter, given by \<open>fmt\<close>.
\<close>

definition py_str :: "(pyval \<Rightarrow> string) \<Rightarrow> pyval \<Rightarrow> string" where
  "py_str fmt v =
     (case v of
        PStr s \<Rightarrow> s
      | PNone \<Rightarrow> ''None''
      | PBool b \<Rightarrow> (if b then ''True'' else ''False'')
      | _ \<Rightarrow> fmt v)"

text \<open>
  \<^verbatim>\<open>s.lower()\<close> of a string of ASCII characters. A function that lowers a string of
  any characters takes \<^verbatim>\<open>str.lower\<close> as the parameter \<open>lower\<close>.
\<close>

definition lower_char :: "char \<Rightarrow> char" where
  "lower_char c =
     (let n = (of_char c :: nat) in if 65 \<le> n \<and> n \<le> 90 then char_of (n + 32) else c)"

definition ascii_lower :: "string \<Rightarrow> string" where
  "ascii_lower s = map lower_char s"

text \<open>
  \<^verbatim>\<open>str(e)\<close> of an exception. For an exception of the interpreter the message is
  abbreviated to the name of its class.
\<close>

fun exn_text :: "pyexn \<Rightarrow> string" where
  "exn_text TypeError = ''TypeError''"
| "exn_text AttributeError = ''AttributeError''"
| "exn_text ValueError = ''ValueError''"
| "exn_text ZeroDivisionError = ''ZeroDivisionError''"
| "exn_text OverflowError = ''OverflowError''"
| "exn_text (Raised msg) = msg"

text \<open>
  The nearest integer, a tie going to the even neighbour, and the nearest multiple of
  0.01 of a real number.
\<close>

definition round_half_even :: "real \<Rightarrow> int" where
  "round_half_even y =
     (let f = \<lfloor>y\<rfloor>; d = y - of_int f
      in if d < 1 / 2 then f else if 1 / 2 < d then f + 1 else if even f then f else f + 1)"

definition py_round2 :: "real \<Rightarrow> real" where
  "py_round2 x = of_int (round_half_even (x * 100)) / 100"

section \<open>Floating-point arithmetic\<close>

text \<open>
  A Python float is an IEEE 754 double. \<open>rnd x\<close> is the double nearest to the real \<open>x\<close>,
  a tie going to the even significand: a multiple of \<open>2 ^ (e - 52)\<close>, where \<open>e\<close> is the
  exponent of \<open>x\<close> and at least -1022 (below it the doubles are subnormal), or an
  infinity when the rounded magnitude reaches \<open>2 ^ 1024\<close>. The two zeros are one value.
  A real \<open>x\<close> is a double when \<open>rnd x = Fin x\<close>.
\<close>

definition rnd :: "real \<Rightarrow> pyfloat" where
  "rnd x =
     (if x = 0 then Fin 0
      else
        let e = max \<lfloor>log 2 \<bar>x\<bar>\<rfloor> (- 1022);
            u = (if 52 \<le> e then 2 ^ nat (e - 52) else 1 / 2 ^ nat (52 - e));
            y = of_int (round_half_even (x / u)) * u
        in if 2 ^ 1024 \<le> \<bar>y\<bar> then Infty (0 < x) else Fin y)"

definition is_double :: "real \<Rightarrow> bool" where
  "is_double x = (rnd x = Fin x)"

text \<open>
  The operations on floats: the exact result, rounded. An operand that is an integer is
  converted to a float first; the operations below take its value, which is the same
  for every integer that is a double.
\<close>

fun fneg :: "pyfloat \<Rightarrow> pyfloat" where
  "fneg (Fin a) = Fin (- a)"
| "fneg (Infty s) = Infty (\<not> s)"
| "fneg NaN = NaN"

fun fadd :: "pyfloat \<Rightarrow> pyfloat \<Rightarrow> pyfloat" where
  "fadd (Fin a) (Fin b) = rnd (a + b)"
| "fadd (Fin a) (Infty t) = Infty t"
| "fadd (Infty s) (Fin b) = Infty s"
| "fadd (Infty s) (Infty t) = (if s = t then Infty s else NaN)"
| "fadd _ _ = NaN"

definition fsub :: "pyfloat \<Rightarrow> pyfloat \<Rightarrow> pyfloat" where
  "fsub x y = fadd x (fneg y)"

fun fmul :: "pyfloat \<Rightarrow> pyfloat \<Rightarrow> pyfloat" where
  "fmul (Fin a) (Fin b) = rnd (a * b)"
| "fmul (Fin a) (Infty t) = (if a = 0 then NaN else Infty (t = (0 < a)))"
| "fmul (Infty s) (Fin b) = (if b = 0 then NaN else Infty (s = (0 < b)))"
| "fmul (Infty s) (Infty t) = Infty (s = t)"
| "fmul _ _ = NaN"

text \<open>
  The quotient. Python raises \<^verbatim>\<open>ZeroDivisionError\<close> before it divides a float by zero,
  numpy does not: it divides, and by the positive zero gives an infinity, or \<^verbatim>\<open>nan\<close>
  for a dividend that is zero.
\<close>

fun fdiv :: "pyfloat \<Rightarrow> pyfloat \<Rightarrow> pyfloat" where
  "fdiv (Fin a) (Fin b) =
     (if b = 0 then (if a = 0 then NaN else Infty (0 < a)) else rnd (a / b))"
| "fdiv (Fin a) (Infty t) = Fin 0"
| "fdiv (Infty s) (Fin b) = Infty (s = (0 \<le> b))"
| "fdiv _ _ = NaN"


text \<open>
  \<^verbatim>\<open>round(x, 2)\<close> of a float: the double nearest to the multiple of 0.01 that is nearest
  to the value of \<open>x\<close>, a tie going to the even multiple. \<^verbatim>\<open>max(0, x)\<close> is \<open>x\<close> if
  \<^verbatim>\<open>x > 0\<close>, else 0.
\<close>

fun float_round2 :: "pyfloat \<Rightarrow> pyfloat" where
  "float_round2 (Fin x) = rnd (of_int (round_half_even (x * 100)) / 100)"
| "float_round2 x = x"

definition float_max0 :: "pyfloat \<Rightarrow> pyfloat" where
  "float_max0 x = (if float_lt (Fin 0) x then x else Fin 0)"

text \<open>A dynamically typed operand of an arithmetic operator whose other operand is a number.\<close>

definition float_arg :: "pyval \<Rightarrow> pyexn + pyfloat" where
  "float_arg v = (case as_float v of None \<Rightarrow> Inl TypeError | Some x \<Rightarrow> Inr x)"

section \<open>Subscription agent: proration\<close>

text \<open>
  \<^verbatim>\<open>SUBSCRIPTION_PLANS\<close> of \<^verbatim>\<open>app/core/config.py\<close>, with the monthly price (NPR) of each
  plan; the display names and feature tables play no part in the arithmetic.
\<close>

definition SUBSCRIPTION_PLANS :: "(string \<times> int) list" where
  "SUBSCRIPTION_PLANS =
     [(''free'', 0), (''basic'', 499), (''premium'', 999), (''elite'', 1999)]"

text \<open>
  \<^verbatim>\<open>SUBSCRIPTION_PLANS.get(plan, {}).get("monthly_price", 0)\<close>: a key that cannot be
  hashed raises, any other key that is not a plan code gives 0.
\<close>

definition monthly_price_of :: "pyval \<Rightarrow> pyexn + real" where
  "monthly_price_of plan =
     (case plan of
        PStr s \<Rightarrow> Inr (case map_of SUBSCRIPTION_PLANS s of None \<Rightarrow> 0 | Some p \<Rightarrow> of_int p)
      | PList _ \<Rightarrow> Inl TypeError
      | PDict _ \<Rightarrow> Inl TypeError
      | _ \<Rightarrow> Inr 0)"

text \<open>
  \<^verbatim>\<open>(datetime.now() + timedelta(days=n)).isoformat()\<close>. A point in time is a real number
  of days since \<^verbatim>\<open>datetime.min\<close>; a result outside the years 1 to 9999 raises, and so
  does a number of days that is infinite or not a number.
\<close>

definition add_days :: "real \<Rightarrow> pyfloat \<Rightarrow> pyexn + real" where
  "add_days now n =
     (case n of
        Fin d \<Rightarrow> if 0 \<le> now + d \<and> now + d < 3652059 then Inr (now + d) else Inl OverflowError
      | Infty s \<Rightarrow> Inl OverflowError
      | NaN \<Rightarrow> Inl ValueError)"

text \<open>
  \<^verbatim>\<open>SubscriptionAgent._calculate_proration\<close> at the time \<open>now\<close>. The prices are integers,
  the quotients by the number of days are floats, and so is all that is computed from
  them; the result without a \<^verbatim>\<open>remaining_value\<close> is that of a current plan that costs
  nothing.
\<close>

record proration =
  proration_amount :: pyfloat
  credit_amount :: pyfloat
  remaining_value :: "pyfloat option"
  next_billing_date :: real

definition calculate_proration :: "real \<Rightarrow> pydict \<Rightarrow> pyexn + proration" where
  "calculate_proration now payload =
     (let current_plan = py_get payload ''current_plan'' (PStr ''free'');
          new_plan = py_get payload ''new_plan'' PNone;
          days_used = py_get payload ''days_used'' (PNum 0);
          days_in_period = py_get payload ''days_in_period'' (PNum 30)
      in case monthly_price_of current_plan of Inl e \<Rightarrow> Inl e | Inr current_price \<Rightarrow>
         case monthly_price_of new_plan of Inl e \<Rightarrow> Inl e | Inr new_price \<Rightarrow>
         if current_price = 0 then
           (case add_days now (Fin 30) of Inl e \<Rightarrow> Inl e | Inr d \<Rightarrow>
              Inr \<lparr>proration_amount = Fin new_price, credit_amount = Fin 0,
                   remaining_value = None, next_billing_date = d\<rparr>)
         else
           case float_arg days_in_period of Inl e \<Rightarrow> Inl e | Inr dip \<Rightarrow>
           if dip = Fin 0 then Inl ZeroDivisionError else
           let daily_rate = fdiv (Fin current_price) dip in
           case float_arg days_used of Inl e \<Rightarrow> Inl e | Inr du \<Rightarrow>
           let remaining_days = fsub dip du;
               remaining = fmul daily_rate remaining_days;
               new_daily_rate = fdiv (Fin new_price) dip;
               new_cost = fmul new_daily_rate remaining_days;
               proration = fsub new_cost remaining
           in case add_days now remaining_days of Inl e \<Rightarrow> Inl e | Inr d \<Rightarrow>
              Inr \<lparr>proration_amount = float_max0 (float_round2 proration),
                   credit_amount = float_max0 (float_round2 (fneg proration)),
                   remaining_value = Some (float_round2 remaining),
                   next_billing_date = d\<rparr>)"

section \<open>Base agent\<close>

subsection \<open>Decoding JSON text\<close>

text \<open>
  \<open>json_loads\<close> stands for \<^verbatim>\<open>json.loads\<close> of the Python library on a string: \<open>None\<close> is
  \<^verbatim>\<open>JSONDecodeError\<close>. It follows the decoder's grammar: white space is space, tab, line
  feed and carriage return; a value is a string, an object, an array, \<^verbatim>\<open>null\<close>,
  \<^verbatim>\<open>true\<close>, \<^verbatim>\<open>false\<close>, a number, or one of the literals \<^verbatim>\<open>NaN\<close>, \<^verbatim>\<open>Infinity\<close> and
  \<^verbatim>\<open>-Infinity\<close>; text after the value is an error. A number is decoded to the value its
  digits denote. A \<^verbatim>\<open>\u\<close> escape yields the UTF-8 bytes of its code point. The functions that use the decoder take it as the parameter
  \<open>loads\<close>, so what is proved of them holds of every decoder.
\<close>

definition json_ws :: "char \<Rightarrow> bool" where
  "json_ws c = (c = CHR '' '' \<or> c = CHR 0x09 \<or> c = CHR 0x0A \<or> c = CHR 0x0D)"

definition skip_ws :: "string \<Rightarrow> string" where
  "skip_ws s = dropWhile json_ws s"

definition is_digit :: "char \<Rightarrow> bool" where
  "is_digit c = (48 \<le> (of_char c :: nat) \<and> (of_char c :: nat) \<le> 57)"

definition digits_val :: "string \<Rightarrow> nat" where
  "digits_val ds = foldl (\<lambda>a c. 10 * a + (of_char c - 48)) 0 ds"

definition hex_val :: "char \<Rightarrow> nat option" where
  "hex_val c =
     (let n = (of_char c :: nat)
      in if 48 \<le> n \<and> n \<le> 57 then Some (n - 48)
         else if 65 \<le> n \<and> n \<le> 70 then Some (n - 55)
         else if 97 \<le> n \<and> n \<le> 102 then Some (n - 87)
         else None)"

definition hex4 :: "char \<Rightarrow> char \<Rightarrow> char \<Rightarrow> char \<Rightarrow> nat option" where
  "hex4 a b c d =
     (case (hex_val a, hex_val b, hex_val c, hex_val d) of
        (Some w, Some x, Some y, Some z) \<Rightarrow> Some (4096 * w + 256 * x + 16 * y + z)
      | _ \<Rightarrow> None)"

definition utf8 :: "nat \<Rightarrow> string" where
  "utf8 n =
     (if n < 0x80 then [char_of n]
      else if n < 0x800 then [char_of (0xC0 + n div 64), char_of (0x80 + n mod 64)]
      else if n < 0x10000 then
        [char_of (0xE0 + n div 4096), char_of (0x80 + n div 64 mod 64),
         char_of (0x80 + n mod 64)]
      else
        [char_of (0xF0 + n div 262144), char_of (0x80 + n div 4096 mod 64),
         char_of (0x80 + n div 64 mod 64), char_of (0x80 + n mod 64)])"

definition unescape :: "char \<Rightarrow> char option" where
  "unescape e =
     (if e = CHR 0x22 then Some (CHR 0x22)
      else if e = CHR 0x5C then Some (CHR 0x5C)
      else if e = CHR ''/'' then Some (CHR ''/'')
      else if e = CHR ''b'' then Some (CHR 0x08)
      else if e = CHR ''f'' then Some (CHR 0x0C)
      else if e = CHR ''n'' then Some (CHR 0x0A)
      else if e = CHR ''r'' then Some (CHR 0x0D)
      else if e = CHR ''t'' then Some (CHR 0x09)
      else None)"

text \<open>
  The body of a string literal, from after its opening quote: the decoded text and what
  follows the closing quote. A control character inside the literal is an error; two
  \<^verbatim>\<open>\u\<close> escapes that form a surrogate pair make one code point.
\<close>

fun scan_string :: "string \<Rightarrow> (string \<times> string) option" where
  "scan_string [] = None"
| "scan_string (c # cs) =
     (if c = CHR 0x22 then Some ([], cs)
      else if c = CHR 0x5C then
        (case cs of
           [] \<Rightarrow> None
         | e # es \<Rightarrow>
             if e = CHR ''u'' then
               (case es of
                  h1 # h2 # h3 # h4 # r \<Rightarrow>
                    (case hex4 h1 h2 h3 h4 of
                       None \<Rightarrow> None
                     | Some u \<Rightarrow>
                         (case r of
                            b # v # l1 # l2 # l3 # l4 # x # r' \<Rightarrow>
                              if 0xD800 \<le> u \<and> u \<le> 0xDBFF \<and> b = CHR 0x5C \<and> v = CHR ''u'' then
                                (case hex4 l1 l2 l3 l4 of
                                   None \<Rightarrow> None
                                 | Some u2 \<Rightarrow>
                                     if 0xDC00 \<le> u2 \<and> u2 \<le> 0xDFFF then
                                       map_option
                                         (\<lambda>(s, t).
                                            (utf8 (0x10000 + (u - 0xD800) * 1024 + (u2 - 0xDC00)) @ s, t))
                                         (scan_string (x # r'))
                                     else map_option (\<lambda>(s, t). (utf8 u @ s, t)) (scan_string r))
                              else map_option (\<lambda>(s, t). (utf8 u @ s, t)) (scan_string r)
                          | _ \<Rightarrow> map_option (\<lambda>(s, t). (utf8 u @ s, t)) (scan_string r)))
                | _ \<Rightarrow> None)
             else
               (case unescape e of
                  None \<Rightarrow> None
                | Some ch \<Rightarrow> map_option (\<lambda>(s, t). (ch # s, t)) (scan_string es)))
      else if (of_char c :: nat) < 32 then None
      else map_option (\<lambda>(s, t). (c # s, t)) (scan_string cs))"

text \<open>
  A number: an optional minus sign, an integer part without leading zeros, an optional
  fraction and an optional exponent. A dot or an exponent mark that no digit follows is
  left in the input.
\<close>

definition scan_number :: "string \<Rightarrow> (real \<times> string) option" where
  "scan_number s =
     (let neg = startswith s ''-'';
          s1 = (if neg then drop 1 s else s)
      in case s1 of
           [] \<Rightarrow> None
         | c # r \<Rightarrow>
             if \<not> is_digit c then None
             else
               let ids = (if c = CHR ''0'' then [c] else c # takeWhile is_digit r);
                   s2 = drop (length ids) s1;
                   fds = (case s2 of
                            [] \<Rightarrow> []
                          | d # t \<Rightarrow> if d = CHR ''.'' then takeWhile is_digit t else []);
                   s3 = (if fds = [] then s2 else drop (Suc (length fds)) s2);
                   signed = (case s3 of
                               e # g # t \<Rightarrow> g = CHR ''-'' \<or> g = CHR ''+''
                             | _ \<Rightarrow> False);
                   eds = (case s3 of
                            [] \<Rightarrow> []
                          | e # t \<Rightarrow>
                              if e = CHR ''e'' \<or> e = CHR ''E'' then
                                takeWhile is_digit (if signed then drop 1 t else t)
                              else []);
                   s4 = (if eds = [] then s3
                         else drop (length eds + (if signed then 2 else 1)) s3);
                   m = real (digits_val ids) + real (digits_val fds) / 10 ^ length fds;
                   v = (if signed \<and> startswith (drop 1 s3) ''-'' then m / 10 ^ digits_val eds
                        else m * 10 ^ digits_val eds)
               in Some (if neg then - v else v, s4))"

text \<open>
  Values, array elements and object members. The first argument bounds the number of
  nested calls; \<open>json_loads\<close> starts with twice the length of the text, which no text
  exhausts, since every nested call has consumed a character. A repeated key of an
  object keeps its first position and takes the last value.
\<close>

fun scan_once :: "nat \<Rightarrow> string \<Rightarrow> (pyval \<times> string) option"
  and scan_elements :: "nat \<Rightarrow> pyval list \<Rightarrow> string \<Rightarrow> (pyval \<times> string) option"
  and scan_members :: "nat \<Rightarrow> pydict \<Rightarrow> string \<Rightarrow> (pyval \<times> string) option" where
  "scan_once 0 s = None"
| "scan_once (Suc n) s =
     (case s of
        [] \<Rightarrow> None
      | c # cs \<Rightarrow>
          if c = CHR 0x22 then
            (case scan_string cs of None \<Rightarrow> None | Some (str, rest) \<Rightarrow> Some (PStr str, rest))
          else if c = CHR ''{'' then
            (case skip_ws cs of
               [] \<Rightarrow> None
             | d # ds \<Rightarrow>
                 if d = CHR ''}'' then Some (PDict [], ds)
                 else if d = CHR 0x22 then scan_members n [] ds
                 else None)
          else if c = CHR ''['' then
            (case skip_ws cs of
               [] \<Rightarrow> None
             | d # ds \<Rightarrow>
                 if d = CHR '']'' then Some (PList [], ds) else scan_elements n [] (d # ds))
          else if startswith s ''null'' then Some (PNone, drop 4 s)
          else if startswith s ''true'' then Some (PBool True, drop 4 s)
          else if startswith s ''false'' then Some (PBool False, drop 5 s)
          else
            (case scan_number s of
               Some (r, rest) \<Rightarrow> Some (PNum r, rest)
             | None \<Rightarrow>
                 if startswith s ''NaN'' then Some (PNaN, drop 3 s)
                 else if startswith s ''Infinity'' then Some (PInf True, drop 8 s)
                 else if startswith s ''-Infinity'' then Some (PInf False, drop 9 s)
                 else None))"
| "scan_elements 0 acc s = None"
| "scan_elements (Suc n) acc s =
     (case scan_once n s of
        None \<Rightarrow> None
      | Some (v, rest) \<Rightarrow>
          (case skip_ws rest of
             [] \<Rightarrow> None
           | d # ds \<Rightarrow>
               if d = CHR '']'' then Some (PList (acc @ [v]), ds)
               else if d = CHR '','' then scan_elements n (acc @ [v]) (skip_ws ds)
               else None))"
| "scan_members 0 acc s = None"
| "scan_members (Suc n) acc s =
     (case scan_string s of
        None \<Rightarrow> None
      | Some (key, rest) \<Rightarrow>
          (case skip_ws rest of
             [] \<Rightarrow> None
           | c # cs \<Rightarrow>
               if c \<noteq> CHR '':'' then None
               else
                 (case scan_once n (skip_ws cs) of
                    None \<Rightarrow> None
                  | Some (v, rest2) \<Rightarrow>
                      (case skip_ws rest2 of
                         [] \<Rightarrow> None
                       | d # ds \<Rightarrow>
                           if d = CHR ''}'' then Some (PDict (py_set acc key v), ds)
                           else if d = CHR '','' then
                             (case skip_ws ds of
                                [] \<Rightarrow> None
                              | q # qs \<Rightarrow>
                                  if q = CHR 0x22 then scan_members n (py_set acc key v) qs
                                  else None)
                           else None))))"

definition json_loads :: "string \<Rightarrow> pyval option" where
  "json_loads s =
     (case scan_once (2 * length s + 2) (skip_ws s) of
        None \<Rightarrow> None
      | Some (v, rest) \<Rightarrow> if skip_ws rest = [] then Some v else None)"

subsection \<open>Extracting JSON from a model response\<close>

text \<open>
  The white space of the pattern \<^verbatim>\<open>\s\<close>, and the three backticks that open and close a
  fenced block.
\<close>

definition re_space :: "char \<Rightarrow> bool" where
  "re_space c =
     (let n = (of_char c :: nat) in (9 \<le> n \<and> n \<le> 13) \<or> (28 \<le> n \<and> n \<le> 32))"

definition fence :: string where
  "fence = [CHR 0x60, CHR 0x60, CHR 0x60]"

text \<open>
  \<^verbatim>\<open>re.search(r'```(?:json)?\s*(.*?)\s*```', content, re.DOTALL)\<close> and its group 1. The
  match starts at the first fence; after an optional \<^verbatim>\<open>json\<close> tag and all the white space
  that follows, the group is the shortest text after which white space and a fence come.
\<close>

fun after_fence :: "string \<Rightarrow> string option" where
  "after_fence [] = None"
| "after_fence (c # cs) =
     (if startswith (c # cs) fence then Some (drop 3 (c # cs)) else after_fence cs)"

fun lazy_body :: "string \<Rightarrow> string option" where
  "lazy_body [] = None"
| "lazy_body (c # cs) =
     (if startswith (dropWhile re_space (c # cs)) fence then Some []
      else map_option ((#) c) (lazy_body cs))"

definition fence_group :: "string \<Rightarrow> string option" where
  "fence_group content =
     (case after_fence content of
        None \<Rightarrow> None
      | Some r \<Rightarrow>
          lazy_body (dropWhile re_space (if startswith r ''json'' then drop 4 r else r)))"

text \<open>
  \<^verbatim>\<open>re.search(r'\{.*\}', content, re.DOTALL)\<close> and its group 0: from the first opening
  brace to the last closing brace after it.
\<close>

definition brace_span :: "string \<Rightarrow> string option" where
  "brace_span content =
     (let r = dropWhile (\<lambda>c. c \<noteq> CHR ''{'') content
      in if CHR ''}'' \<in> set r then Some (rev (dropWhile (\<lambda>c. c \<noteq> CHR ''}'') (rev r)))
         else None)"

text \<open>\<^verbatim>\<open>BaseAgent.parse_json_response\<close>.\<close>

definition parse_json_response :: "(string \<Rightarrow> pyval option) \<Rightarrow> string \<Rightarrow> pyval" where
  "parse_json_response loads content =
     (case loads content of
        Some v \<Rightarrow> v
      | None \<Rightarrow>
          (let braces =
                 (case brace_span content of
                    None \<Rightarrow> PDict [(''raw_response'', PStr content)]
                  | Some b \<Rightarrow>
                      (case loads b of
                         Some v \<Rightarrow> v
                       | None \<Rightarrow> PDict [(''raw_response'', PStr content)]))
           in case fence_group content of
                None \<Rightarrow> braces
              | Some g \<Rightarrow> (case loads g of Some v \<Rightarrow> v | None \<Rightarrow> braces)))"

subsection \<open>The execution envelope\<close>

text \<open>
  \<^verbatim>\<open>BaseAgent.execute\<close> for an agent called \<open>name\<close> whose \<^verbatim>\<open>process\<close> method is
  \<open>process\<close>; \<open>elapsed_ms\<close> is the duration it measures. A result of \<^verbatim>\<open>process\<close> that is
  not a dictionary fails at \<^verbatim>\<open>result.get("tokens_used")\<close>, inside the \<^verbatim>\<open>try\<close>. The log
  entry goes to the database, and \<^verbatim>\<open>log_execution\<close> swallows its own failures: it has no
  effect on the value returned.
\<close>

definition execute ::
  "string \<Rightarrow> (pyval \<Rightarrow> pyexn + pyval) \<Rightarrow> nat \<Rightarrow> pyval \<Rightarrow> pyval \<Rightarrow> pydict" where
  "execute name process elapsed_ms action payload =
     (let failed = (\<lambda>e.
            [(''success'', PBool False), (''agent_name'', PStr name), (''action'', action),
             (''error'', PStr (exn_text e)), (''execution_time_ms'', PNum (real elapsed_ms))])
      in case process payload of
           Inl e \<Rightarrow> failed e
         | Inr (PDict result) \<Rightarrow>
             [(''success'', PBool True), (''agent_name'', PStr name), (''action'', action),
              (''result'', PDict result), (''execution_time_ms'', PNum (real elapsed_ms))]
         | Inr _ \<Rightarrow> failed AttributeError)"

section \<open>Orchestrator\<close>

text \<open>
  A registered agent: its name, its \<^verbatim>\<open>process\<close> method and the time a call takes.
  The registry \<^verbatim>\<open>self.agents\<close> maps names to agents.
\<close>

record agent =
  agent_name :: string
  agent_process :: "pyval \<Rightarrow> pyexn + pyval"
  agent_elapsed :: "pyval \<Rightarrow> nat"

type_synonym registry = "string \<Rightarrow> agent option"

definition agent_execute :: "agent \<Rightarrow> pyval \<Rightarrow> pyval \<Rightarrow> pydict" where
  "agent_execute a action payload =
     execute (agent_name a) (agent_process a) (agent_elapsed a payload) action payload"

text \<open>
  \<^verbatim>\<open>name in self.agents\<close> with the agent found: a list or a dictionary is not hashable,
  and a value that is not a string is no key of the registry.
\<close>

definition find_agent :: "registry \<Rightarrow> pyval \<Rightarrow> pyexn + agent option" where
  "find_agent agents name =
     (case name of
        PStr s \<Rightarrow> Inr (agents s)
      | PList _ \<Rightarrow> Inl TypeError
      | PDict _ \<Rightarrow> Inl TypeError
      | _ \<Rightarrow> Inr None)"

text \<open>
  \<^verbatim>\<open>OrchestratorAgent.execute_parallel\<close>. The first loop makes one task for each request
  whose agent is registered; \<^verbatim>\<open>asyncio.gather\<close> returns the outcomes of the tasks in the
  order of the tasks; the second loop goes through the outcomes with their index, which
  is below the number of requests, as no request makes more than one task. An outcome is
  an exception only if \<^verbatim>\<open>execute\<close> raises, which it does not: the branch is kept as the
  source has it.
\<close>

fun make_tasks :: "registry \<Rightarrow> pydict list \<Rightarrow> pyexn + (pyexn + pydict) list" where
  "make_tasks agents [] = Inr []"
| "make_tasks agents (req # reqs) =
     (case find_agent agents (py_get req ''agent'' PNone) of
        Inl e \<Rightarrow> Inl e
      | Inr None \<Rightarrow> make_tasks agents reqs
      | Inr (Some a) \<Rightarrow>
          (case make_tasks agents reqs of
             Inl e \<Rightarrow> Inl e
           | Inr tasks \<Rightarrow>
               Inr (Inr (agent_execute a (py_get req ''action'' PNone)
                          (py_get req ''payload'' (PDict []))) # tasks)))"

fun process_results :: "pydict list \<Rightarrow> nat \<Rightarrow> (pyexn + pydict) list \<Rightarrow> pydict list" where
  "process_results requests i [] = []"
| "process_results requests i (result # results) =
     (case result of
        Inl e \<Rightarrow>
          [(''success'', PBool False), (''agent'', py_get (requests ! i) ''agent'' PNone),
           (''error'', PStr (exn_text e))]
      | Inr r \<Rightarrow> r) # process_results requests (Suc i) results"

definition execute_parallel :: "registry \<Rightarrow> pydict list \<Rightarrow> pyexn + pydict list" where
  "execute_parallel agents requests =
     (case make_tasks agents requests of
        Inl e \<Rightarrow> Inl e
      | Inr results \<Rightarrow> Inr (process_results requests 0 results))"




section \<open>Capability agents: dispatch on the action\<close>

text \<open>
  The \<^verbatim>\<open>process\<close> method of each of the nine agents that the orchestrator registers. It
  reads \<^verbatim>\<open>payload.get("action")\<close> and calls the handler of that action; \<open>h\<close> gives the
  behaviour of the agent's handler methods by name (most of them call the language
  model). A payload that is not a dictionary has no \<^verbatim>\<open>get\<close>.
\<close>

type_synonym handlers = "string \<Rightarrow> pydict \<Rightarrow> pyexn + pyval"

definition unknown_action :: "(pyval \<Rightarrow> string) \<Rightarrow> pyval \<Rightarrow> pyexn + pyval" where
  "unknown_action fmt action =
     Inr (PDict [(''error'', PStr (''Unknown action: '' @ py_str fmt action))])"

text \<open>\<^verbatim>\<open>UserProfileAgent.process\<close>.\<close>

definition process_user_profile :: "(pyval \<Rightarrow> string) \<Rightarrow> handlers \<Rightarrow> pyval \<Rightarrow> pyexn + pyval" where
  "process_user_profile fmt h payload =
     (case payload of
        PDict p \<Rightarrow>
          (let action = py_get p ''action'' PNone
           in if py_eq action (PStr ''analyze_profile'') then h ''_analyze_profile'' p
              else if py_eq action (PStr ''generate_embedding'') then h ''_generate_embedding'' p
              else if py_eq action (PStr ''extract_interests'') then h ''_extract_interests'' p
              else if py_eq action (PStr ''suggest_improvements'') then h ''_suggest_improvements'' p
              else unknown_action fmt action)
      | _ \<Rightarrow> Inl AttributeError)"

text \<open>\<^verbatim>\<open>MatchingAgent.process\<close>.\<close>

definition process_matching :: "(pyval \<Rightarrow> string) \<Rightarrow> handlers \<Rightarrow> pyval \<Rightarrow> pyexn + pyval" where
  "process_matching fmt h payload =
     (case payload of
        PDict p \<Rightarrow>
          (let action = py_get p ''action'' PNone
           in if py_eq action (PStr ''find_matches'') then h ''_find_matches'' p
              else if py_eq action (PStr ''calculate_compatibility'') then h ''_calculate_compatibility'' p
              else if py_eq action (PStr ''explain_match'') then h ''_explain_match'' p
              else if py_eq action (PStr ''rank_candidates'') then h ''_rank_candidates'' p
              else unknown_action fmt action)
      | _ \<Rightarrow> Inl AttributeError)"

text \<open>\<^verbatim>\<open>ConversationAgent.process\<close>.\<close>

definition process_conversation :: "(pyval \<Rightarrow> string) \<Rightarrow> handlers \<Rightarrow> pyval \<Rightarrow> pyexn + pyval" where
  "process_conversation fmt h payload =
     (case payload of
        PDict p \<Rightarrow>
          (let action = py_get p ''action'' PNone
           in if py_eq action (PStr ''suggest_reply'') then h ''_suggest_reply'' p
              else if py_eq action (PStr ''generate_icebreaker'') then h ''_generate_icebreaker'' p
              else if py_eq action (PStr ''analyze_conversation'') then h ''_analyze_conversation'' p
              else if py_eq action (PStr ''get_topic_ideas'') then h ''_get_topic_ideas'' p
              else unknown_action fmt action)
      | _ \<Rightarrow> Inl AttributeError)"

text \<open>\<^verbatim>\<open>SafetyAgent.process\<close>.\<close>

definition process_safety :: "(pyval \<Rightarrow> string) \<Rightarrow> handlers \<Rightarrow> pyval \<Rightarrow> pyexn + pyval" where
  "process_safety fmt h payload =
     (case payload of
        PDict p \<Rightarrow>
          (let action = py_get p ''action'' PNone
           in if py_eq action (PStr ''moderate_content'') then h ''_moderate_content'' p
              else if py_eq action (PStr ''check_message'') then h ''_check_message'' p
              else if py_eq action (PStr ''check_profile'') then h ''_check_profile'' p
              else if py_eq action (PStr ''analyze_image'') then h ''_analyze_image'' p
              else unknown_action fmt action)
      | _ \<Rightarrow> Inl AttributeError)"

text \<open>\<^verbatim>\<open>FraudDetectionAgent.process\<close>.\<close>

definition process_fraud_detection :: "(pyval \<Rightarrow> string) \<Rightarrow> handlers \<Rightarrow> pyval \<Rightarrow> pyexn + pyval" where
  "process_fraud_detection fmt h payload =
     (case payload of
        PDict p \<Rightarrow>
          (let action = py_get p ''action'' PNone
           in if py_eq action (PStr ''check_fraud'') then h ''_check_fraud'' p
              else if py_eq action (PStr ''analyze_behavior'') then h ''_analyze_behavior'' p
              else if py_eq action (PStr ''check_profile'') then h ''_check_profile'' p
              else if py_eq action (PStr ''verify_account'') then h ''_verify_account'' p
              else unknown_action fmt action)
      | _ \<Rightarrow> Inl AttributeError)"

text \<open>\<^verbatim>\<open>ImageVerificationAgent.process\<close>.\<close>

definition process_image_verification :: "(pyval \<Rightarrow> string) \<Rightarrow> handlers \<Rightarrow> pyval \<Rightarrow> pyexn + pyval" where
  "process_image_verification fmt h payload =
     (case payload of
        PDict p \<Rightarrow>
          (let action = py_get p ''action'' PNone
           in if py_eq action (PStr ''verify_photo'') then h ''_verify_photo'' p
              else if py_eq action (PStr ''moderate_image'') then h ''_moderate_image'' p
              else if py_eq action (PStr ''check_face'') then h ''_check_face'' p
              else if py_eq action (PStr ''verify_selfie'') then h ''_verify_selfie'' p
              else unknown_action fmt action)
      | _ \<Rightarrow> Inl AttributeError)"

text \<open>\<^verbatim>\<open>SubscriptionAgent.process\<close>.\<close>

definition process_subscription :: "(pyval \<Rightarrow> string) \<Rightarrow> handlers \<Rightarrow> pyval \<Rightarrow> pyexn + pyval" where
  "process_subscription fmt h payload =
     (case payload of
        PDict p \<Rightarrow>
          (let action = py_get p ''action'' PNone
           in if py_eq action (PStr ''process_payment'') then h ''_process_payment'' p
              else if py_eq action (PStr ''check_subscription'') then h ''_check_subscription'' p
              else if py_eq action (PStr ''upgrade_plan'') then h ''_upgrade_plan'' p
              else if py_eq action (PStr ''calculate_proration'') then h ''_calculate_proration'' p
              else if py_eq action (PStr ''handle_failed_payment'') then h ''_handle_failed_payment'' p
              else unknown_action fmt action)
      | _ \<Rightarrow> Inl AttributeError)"

text \<open>\<^verbatim>\<open>AnalyticsAgent.process\<close>.\<close>

definition process_analytics :: "(pyval \<Rightarrow> string) \<Rightarrow> handlers \<Rightarrow> pyval \<Rightarrow> pyexn + pyval" where
  "process_analytics fmt h payload =
     (case payload of
        PDict p \<Rightarrow>
          (let action = py_get p ''action'' PNone
           in if py_eq action (PStr ''track_event'') then h ''_track_event'' p
              else if py_eq action (PStr ''generate_report'') then h ''_generate_report'' p
              else if py_eq action (PStr ''analyze_funnel'') then h ''_analyze_funnel'' p
              else if py_eq action (PStr ''user_insights'') then h ''_user_insights'' p
              else if py_eq action (PStr ''match_quality'') then h ''_match_quality'' p
              else unknown_action fmt action)
      | _ \<Rightarrow> Inl AttributeError)"

text \<open>\<^verbatim>\<open>AdminAgent.process\<close>.\<close>

definition process_admin :: "(pyval \<Rightarrow> string) \<Rightarrow> handlers \<Rightarrow> pyval \<Rightarrow> pyexn + pyval" where
  "process_admin fmt h payload =
     (case payload of
        PDict p \<Rightarrow>
          (let action = py_get p ''action'' PNone
           in if py_eq action (PStr ''get_user_details'') then h ''_get_user_details'' p
              else if py_eq action (PStr ''suspend_user'') then h ''_suspend_user'' p
              else if py_eq action (PStr ''resolve_report'') then h ''_resolve_report'' p
              else if py_eq action (PStr ''get_system_metrics'') then h ''_get_system_metrics'' p
              else if py_eq action (PStr ''broadcast_message'') then h ''_broadcast_message'' p
              else if py_eq action (PStr ''content_moderation_queue'') then h ''_content_moderation_queue'' p
              else unknown_action fmt action)
      | _ \<Rightarrow> Inl AttributeError)"

text \<open>
  \<^verbatim>\<open>OrchestratorAgent._register_agents\<close>: the registry of the nine agents. \<open>hs\<close> gives
  the handlers of each agent and \<open>clock\<close> the time each takes on a payload.
\<close>

definition registered :: "(string \<times> ((pyval \<Rightarrow> string) \<Rightarrow> handlers \<Rightarrow> pyval \<Rightarrow> pyexn + pyval)) list" where
  "registered =
     [(''user_profile'', process_user_profile),
      (''matching'', process_matching),
      (''conversation'', process_conversation),
      (''safety'', process_safety),
      (''fraud_detection'', process_fraud_detection),
      (''image_verification'', process_image_verification),
      (''subscription'', process_subscription),
      (''analytics'', process_analytics),
      (''admin'', process_admin)]"

definition register_agents ::
  "(pyval \<Rightarrow> string) \<Rightarrow> (string \<Rightarrow> handlers) \<Rightarrow> (string \<Rightarrow> pyval \<Rightarrow> nat) \<Rightarrow> registry" where
  "register_agents fmt hs clock name =
     (case map_of registered name of
        None \<Rightarrow> None
      | Some process \<Rightarrow>
          Some \<lparr>agent_name = name, agent_process = process fmt (hs name),
                agent_elapsed = clock name\<rparr>)"

text \<open>The actions each agent's \<^verbatim>\<open>process\<close> compares the action with.\<close>

definition known_actions :: "string \<Rightarrow> string list" where
  "known_actions name =
     (if name = ''user_profile'' then
        [''analyze_profile'', ''generate_embedding'', ''extract_interests'', ''suggest_improvements'']
      else if name = ''matching'' then
        [''find_matches'', ''calculate_compatibility'', ''explain_match'', ''rank_candidates'']
      else if name = ''conversation'' then
        [''suggest_reply'', ''generate_icebreaker'', ''analyze_conversation'', ''get_topic_ideas'']
      else if name = ''safety'' then
        [''moderate_content'', ''check_message'', ''check_profile'', ''analyze_image'']
      else if name = ''fraud_detection'' then
        [''check_fraud'', ''analyze_behavior'', ''check_profile'', ''verify_account'']
      else if name = ''image_verification'' then
        [''verify_photo'', ''moderate_image'', ''check_face'', ''verify_selfie'']
      else if name = ''subscription'' then
        [''process_payment'', ''check_subscription'', ''upgrade_plan'', ''calculate_proration'', ''handle_failed_payment'']
      else if name = ''analytics'' then
        [''track_event'', ''generate_report'', ''analyze_funnel'', ''user_insights'', ''match_quality'']
      else if name = ''admin'' then
        [''get_user_details'', ''suspend_user'', ''resolve_report'', ''get_system_metrics'', ''broadcast_message'', ''content_moderation_queue'']
      else [])"

section \<open>Safety agent: content moderation\<close>

definition toxicity_keywords :: "string list" where
  "toxicity_keywords =
     [''hate'', ''kill'', ''die'', ''stupid'', ''idiot'', ''loser'', ''ugly'',
      ''randi'', ''madarchod'', ''behenchod'', ''chutiya'', ''bhosdi'']"

text \<open>\<^verbatim>\<open>SafetyAgent._check_keywords\<close>.\<close>

definition check_keywords :: "string \<Rightarrow> string list" where
  "check_keywords text =
     map (\<lambda>keyword. ''contains_'' @ keyword) (filter (\<lambda>keyword. occurs_in keyword text) toxicity_keywords)"

text \<open>What \<^verbatim>\<open>call_llm\<close> returns when it does not raise.\<close>

record llm_response =
  llm_content :: string
  llm_tokens_used :: nat
  llm_model :: string

text \<open>\<^verbatim>\<open>min(a, b)\<close> is \<open>b\<close> if \<^verbatim>\<open>b < a\<close>, else \<open>a\<close>.\<close>

definition py_min :: "pyval \<Rightarrow> pyval \<Rightarrow> pyexn + pyval" where
  "py_min a b = (case py_lt b a of Inl e \<Rightarrow> Inl e | Inr c \<Rightarrow> Inr (if c then b else a))"

text \<open>
  \<^verbatim>\<open>SafetyAgent._moderate_content\<close>. \<open>call_llm\<close> is the outcome of the call to the
  language model for the content, content type and context of the prompt, and \<open>lower\<close>
  is \<^verbatim>\<open>str.lower\<close>. A content that is not a string has no \<^verbatim>\<open>lower\<close>; a parsed response
  that is not a dictionary does not take \<^verbatim>\<open>result[key] = value\<close>.
\<close>

definition moderate_content ::
  "(string \<Rightarrow> pyval option) \<Rightarrow> (string \<Rightarrow> string) \<Rightarrow>
   (string \<Rightarrow> pyval \<Rightarrow> pyval \<Rightarrow> pyexn + llm_response) \<Rightarrow> pydict \<Rightarrow> pyexn + pyval" where
  "moderate_content loads lower call_llm payload =
     (case py_get payload ''content'' (PStr []) of
        PStr text \<Rightarrow>
          (let content_type = py_get payload ''content_type'' (PStr ''text'');
               context = py_get payload ''context'' (PStr ''general'');
               keyword_flags = check_keywords (lower text)
           in case call_llm text content_type context of
                Inl e \<Rightarrow> Inl e
              | Inr response \<Rightarrow>
                  (case parse_json_response loads (llm_content response) of
                     PDict result \<Rightarrow>
                       (case (if keyword_flags \<noteq> [] then
                                (case py_min (py_get result ''safety_score'' (PNum 1)) (PNum (1 / 2)) of
                                   Inl e \<Rightarrow> Inl e
                                 | Inr m \<Rightarrow>
                                     Inr (py_set
                                            (py_set
                                               (py_set result ''keyword_flags''
                                                  (PList (map PStr keyword_flags)))
                                               ''is_safe'' (PBool False))
                                            ''safety_score'' m))
                              else Inr result) of
                          Inl e \<Rightarrow> Inl e
                        | Inr merged \<Rightarrow>
                            (let counted = py_set merged ''tokens_used''
                                             (PNum (real (llm_tokens_used response)));
                                 safety_score = py_get counted ''safety_score'' (PNum 1)
                             in case py_lt safety_score (PNum (3 / 10)) of
                                  Inl e \<Rightarrow> Inl e
                                | Inr True \<Rightarrow> Inr (PDict (py_set counted ''action'' (PStr ''block'')))
                                | Inr False \<Rightarrow>
                                    (case py_lt safety_score (PNum (6 / 10)) of
                                       Inl e \<Rightarrow> Inl e
                                     | Inr True \<Rightarrow>
                                         Inr (PDict (py_set counted ''action'' (PStr ''flag'')))
                                     | Inr False \<Rightarrow>
                                         if py_eq (py_get counted ''severity'' PNone) (PStr ''critical'')
                                         then Inr (PDict (py_set counted ''action'' (PStr ''escalate'')))
                                         else Inr (PDict counted))))
                   | _ \<Rightarrow> Inl TypeError))
      | _ \<Rightarrow> Inl AttributeError)"

section \<open>Matching agent: preference alignment\<close>

text \<open>\<^verbatim>\<open>MatchingAgent._calculate_preference_alignment\<close>.\<close>

definition calculate_preference_alignment :: "pydict \<Rightarrow> pydict \<Rightarrow> pydict \<Rightarrow> pyexn + real" where
  "calculate_preference_alignment user1 user2 preferences =
     (let age1 = py_get user1 ''age'' PNone;
          age2 = py_get user2 ''age'' PNone
      in case (if truthy age1 \<and> truthy age2 then
                 (let age_pref_min = py_get preferences ''age_min'' (PNum 18);
                      age_pref_max = py_get preferences ''age_max'' (PNum 50)
                  in case py_le age_pref_min age2 of
                       Inl e \<Rightarrow> Inl e
                     | Inr False \<Rightarrow> Inr [3 / 10]
                     | Inr True \<Rightarrow>
                         (case py_le age2 age_pref_max of
                            Inl e \<Rightarrow> Inl e
                          | Inr c \<Rightarrow> Inr [if c then 1 else 3 / 10]))
               else Inr []) of
           Inl e \<Rightarrow> Inl e
         | Inr by_age \<Rightarrow>
             (let by_location =
                    by_age @
                    [if py_eq (py_get user1 ''city'' PNone) (py_get user2 ''city'' PNone) then 1
                     else if py_eq (py_get user1 ''province'' PNone) (py_get user2 ''province'' PNone)
                     then 7 / 10
                     else 3 / 10]
              in case (if truthy (py_get preferences ''preferred_religions'' PNone) then
                         (case py_in (py_get user2 ''religion'' PNone)
                                 (py_get preferences ''preferred_religions'' PNone) of
                            Inl e \<Rightarrow> Inl e
                          | Inr c \<Rightarrow> Inr (by_location @ [if c then 1 else 2 / 10]))
                       else Inr by_location) of
                   Inl e \<Rightarrow> Inl e
                 | Inr by_religion \<Rightarrow>
                     (case (if truthy (py_get preferences ''preferred_education_levels'' PNone) then
                              (case py_in (py_get user2 ''education'' PNone)
                                      (py_get preferences ''preferred_education_levels'' PNone) of
                                 Inl e \<Rightarrow> Inl e
                               | Inr c \<Rightarrow> Inr (by_religion @ [if c then 1 else 4 / 10]))
                            else Inr by_religion) of
                        Inl e \<Rightarrow> Inl e
                      | Inr scores \<Rightarrow>
                          Inr (if scores \<noteq> [] then sum_list scores / real (length scores)
                               else 1 / 2))))"

section \<open>Fraud detection agent\<close>

text \<open>
  The result of a sub-check, \<^verbatim>\<open>{"score": ..., "flags": ..., "confidence": ...}\<close>, and the
  step \<^verbatim>\<open>if c: flags.append(name); score += w\<close> on the flags and the score so far.
\<close>

record risk =
  score :: real
  flags :: "string list"
  confidence :: real

definition add_flag :: "bool \<Rightarrow> string \<Rightarrow> real \<Rightarrow> string list \<times> real \<Rightarrow> string list \<times> real" where
  "add_flag c name w st = (if c then (fst st @ [name], snd st + w) else st)"

text \<open>\<^verbatim>\<open>FraudDetectionAgent._assess_profile_risk\<close>.\<close>

definition assess_profile_risk :: "pydict \<Rightarrow> pyexn + risk" where
  "assess_profile_risk profile =
     (case py_lt (py_get profile ''account_age_days'' (PNum 0)) (PNum 1) of
        Inl e \<Rightarrow> Inl e
      | Inr new_account \<Rightarrow>
     (case py_gt (py_get profile ''accounts_from_same_ip'' (PNum 0)) (PNum 1) of
        Inl e \<Rightarrow> Inl e
      | Inr same_ip \<Rightarrow>
          (let st0 = ([], 0);
               st1 = add_flag (new_account \<and> truthy (py_get profile ''is_premium'' PNone))
                       ''new_premium_account'' (3 / 10) st0;
               st2 = add_flag same_ip ''multiple_accounts_same_ip'' (4 / 10) st1;
               st3 = add_flag (py_eq (py_get profile ''photo_count'' (PNum 0)) (PNum 0))
                       ''no_photos'' (2 / 10) st2;
               st4 = add_flag (\<not> py_eq (py_get profile ''ip_country'' PNone)
                                      (py_get profile ''profile_country'' PNone))
                       ''location_mismatch'' (25 / 100) st3
           in Inr \<lparr>score = min (snd st4) 1, flags = fst st4, confidence = 75 / 100\<rparr>)))"

text \<open>\<^verbatim>\<open>FraudDetectionAgent._assess_behavior_risk\<close>.\<close>

definition assess_behavior_risk :: "pydict \<Rightarrow> pyexn + risk" where
  "assess_behavior_risk behavior_data =
     (let messages_per_hour = py_get behavior_data ''messages_per_hour'' (PNum 0)
      in case py_gt messages_per_hour (PNum 50) of
           Inl e \<Rightarrow> Inl e
         | Inr extreme \<Rightarrow>
      (case (if extreme then Inr False else py_gt messages_per_hour (PNum 20)) of
           Inl e \<Rightarrow> Inl e
         | Inr high \<Rightarrow>
      (case py_gt (py_get behavior_data ''swipe_right_ratio'' (PNum (1 / 2))) (PNum (95 / 100)) of
           Inl e \<Rightarrow> Inl e
         | Inr swiping \<Rightarrow>
      (case py_gt (py_get behavior_data ''duplicate_message_ratio'' (PNum 0)) (PNum (1 / 2)) of
           Inl e \<Rightarrow> Inl e
         | Inr duplicates \<Rightarrow>
      (case py_lt (py_get behavior_data ''avg_time_to_message_minutes'' (PNum 1000)) (PNum 1) of
           Inl e \<Rightarrow> Inl e
         | Inr immediate \<Rightarrow>
             (let st0 = ([], 0);
                  st1 = add_flag extreme ''extremely_high_message_velocity'' (4 / 10) st0;
                  st2 = add_flag high ''high_message_velocity'' (2 / 10) st1;
                  st3 = add_flag swiping ''indiscriminate_swiping'' (3 / 10) st2;
                  st4 = add_flag duplicates ''copy_paste_messages'' (35 / 100) st3;
                  st5 = add_flag immediate ''immediate_messaging'' (2 / 10) st4;
                  st6 = add_flag (truthy (py_get behavior_data ''external_link_sharing'' (PBool False)))
                          ''shares_external_links'' (4 / 10) st5
              in Inr \<lparr>score = min (snd st6) 1, flags = fst st6, confidence = 8 / 10\<rparr>))))))"

text \<open>\<^verbatim>\<open>FraudDetectionAgent._detect_suspicious_patterns\<close>; it reads the behaviour data only.\<close>

definition detect_suspicious_patterns :: "pydict \<Rightarrow> pydict \<Rightarrow> pyexn + risk" where
  "detect_suspicious_patterns profile behavior_data =
     (case py_gt (py_get behavior_data ''love_bombing_score'' (PNum 0)) (PNum (7 / 10)) of
        Inl e \<Rightarrow> Inl e
      | Inr love_bombing \<Rightarrow>
     (case py_gt (py_get behavior_data ''investment_mentions'' (PNum 0)) (PNum 0) of
        Inl e \<Rightarrow> Inl e
      | Inr investment \<Rightarrow>
     (case py_gt (py_get behavior_data ''crisis_mentions'' (PNum 0)) (PNum 2) of
        Inl e \<Rightarrow> Inl e
      | Inr crisis \<Rightarrow>
     (case py_gt (py_get behavior_data ''off_platform_requests'' (PNum 0)) (PNum 0) of
        Inl e \<Rightarrow> Inl e
      | Inr off_platform \<Rightarrow>
          (let st0 = ([], 0);
               st1 = add_flag love_bombing ''potential_love_bombing'' (5 / 10) st0;
               st2 = add_flag investment ''investment_mentions'' (4 / 10) st1;
               st3 = add_flag crisis ''repeated_crisis_stories'' (35 / 100) st2;
               st4 = add_flag off_platform ''requests_to_move_off_platform'' (3 / 10) st3
           in Inr \<lparr>score = min (snd st4) 1, flags = fst st4, confidence = 7 / 10\<rparr>)))))"

text \<open>
  \<^verbatim>\<open>FraudDetectionAgent._check_fraud\<close>. The profile and the behaviour data must be
  dictionaries for the sub-checks to read them. \<open>list_set\<close> stands for \<^verbatim>\<open>list(set(...))\<close>,
  whose order the language leaves open. The report's \<^verbatim>\<open>confidence\<close> is the field
  \<open>report_confidence\<close>, and its \<^verbatim>\<open>breakdown\<close> the three fields that end the record.
\<close>

record fraud_report =
  risk_score :: real
  is_suspicious :: bool
  report_confidence :: real
  red_flags :: "string list"
  recommended_action :: string
  profile_risk :: risk
  behavior_risk :: risk
  pattern_risk :: risk

definition as_dict :: "pyval \<Rightarrow> pyexn + pydict" where
  "as_dict v = (case v of PDict d \<Rightarrow> Inr d | _ \<Rightarrow> Inl AttributeError)"

definition check_fraud :: "(string list \<Rightarrow> string list) \<Rightarrow> pydict \<Rightarrow> pyexn + fraud_report" where
  "check_fraud list_set payload =
     (case as_dict (py_get payload ''profile'' (PDict [])) of
        Inl e \<Rightarrow> Inl e
      | Inr profile \<Rightarrow>
     (case assess_profile_risk profile of
        Inl e \<Rightarrow> Inl e
      | Inr p \<Rightarrow>
     (case as_dict (py_get payload ''behavior_data'' (PDict [])) of
        Inl e \<Rightarrow> Inl e
      | Inr behavior_data \<Rightarrow>
     (case assess_behavior_risk behavior_data of
        Inl e \<Rightarrow> Inl e
      | Inr b \<Rightarrow>
     (case detect_suspicious_patterns profile behavior_data of
        Inl e \<Rightarrow> Inl e
      | Inr q \<Rightarrow>
          (let overall = 4 / 10 * score p + 4 / 10 * score b + 2 / 10 * score q;
               action = (if overall > 8 / 10 then ''suspend''
                         else if overall > 6 / 10 then ''review''
                         else if overall > 4 / 10 then ''warn''
                         else ''none'')
           in Inr \<lparr>risk_score = py_round2 overall,
                   is_suspicious = (overall > 1 / 2),
                   report_confidence = py_round2 (max (confidence p) (confidence b)),
                   red_flags = list_set (flags p @ flags b @ flags q),
                   recommended_action = action,
                   profile_risk = p, behavior_risk = b, pattern_risk = q\<rparr>))))))"

section \<open>Matching agent: vector similarity\<close>







section \<open>Verified properties\<close>

subsection \<open>Floating-point arithmetic\<close>

text \<open>Evaluating \<open>rnd\<close>: the exponent and the nearest significand.\<close>

lemma round_half_even_near:
  assumes "of_int m - 1 / 2 < y" and "y < of_int m + 1 / 2"
  shows "round_half_even y = m"
proof -
  have "\<lfloor>y\<rfloor> = m \<or> \<lfloor>y\<rfloor> = m - 1"
    using assms by linarith
  then show ?thesis
  proof
    assume f: "\<lfloor>y\<rfloor> = m"
    then have "y - of_int \<lfloor>y\<rfloor> < 1 / 2" using assms by simp
    with f show ?thesis by (simp add: round_half_even_def Let_def)
  next
    assume f: "\<lfloor>y\<rfloor> = m - 1"
    then have "1 / 2 < y - of_int \<lfloor>y\<rfloor>" using assms by simp
    with f show ?thesis by (simp add: round_half_even_def Let_def)
  qed
qed

lemma round_half_even_tie:
  assumes "even m" and "\<bar>y - of_int m\<bar> = 1 / 2"
  shows "round_half_even y = m"
proof -
  from assms(2) have "y = of_int m - 1 / 2 \<or> y = of_int m + 1 / 2"
    by (auto simp: abs_if split: if_splits)
  then show ?thesis
  proof
    assume y: "y = of_int m - 1 / 2"
    then have f: "\<lfloor>y\<rfloor> = m - 1" by linarith
    have "y - of_int \<lfloor>y\<rfloor> = 1 / 2" unfolding f using y by simp
    with f assms(1) show ?thesis by (simp add: round_half_even_def Let_def)
  next
    assume y: "y = of_int m + 1 / 2"
    then have f: "\<lfloor>y\<rfloor> = m" by linarith
    have "y - of_int \<lfloor>y\<rfloor> = 1 / 2" unfolding f using y by simp
    with f assms(1) show ?thesis by (simp add: round_half_even_def Let_def)
  qed
qed

lemma round_half_even_eval:
  assumes "(of_int m - 1 / 2 < y \<and> y < of_int m + 1 / 2) \<or> (even m \<and> \<bar>y - of_int m\<bar> = 1 / 2)"
  shows "round_half_even y = m"
  using assms round_half_even_near [of m y] round_half_even_tie [of m y] by blast

lemma floor_log2:
  assumes "0 < x" and "2 powr (of_int e) \<le> x" and "x < 2 powr (of_int e + 1)"
  shows "\<lfloor>log 2 x\<rfloor> = e"
proof -
  have "of_int e \<le> log 2 x"
    using assms(1,2) by (simp add: le_log_iff)
  moreover have "log 2 x < of_int e + 1"
    using assms(1,3) by (simp add: log_less_iff)
  ultimately show ?thesis
    by linarith
qed

lemma rnd_eval:
  assumes "x \<noteq> 0" and "2 powr (of_int e) \<le> \<bar>x\<bar>" and "\<bar>x\<bar> < 2 powr (of_int e + 1)"
    and "- 1022 \<le> e" and "e < 52"
    and "(of_int m - 1 / 2 < x * 2 ^ nat (52 - e) \<and> x * 2 ^ nat (52 - e) < of_int m + 1 / 2) \<or>
         (even m \<and> \<bar>x * 2 ^ nat (52 - e) - of_int m\<bar> = 1 / 2)"
    and "\<bar>of_int m / 2 ^ nat (52 - e)\<bar> < (2 :: real) ^ 1024"
  shows "rnd x = Fin (of_int m / 2 ^ nat (52 - e))"
proof -
  have "0 < \<bar>x\<bar>" using assms(1) by simp
  then have e: "\<lfloor>log 2 \<bar>x\<bar>\<rfloor> = e"
    using floor_log2 [OF _ assms(2,3)] by simp
  have "round_half_even (x / (1 / 2 ^ nat (52 - e))) = m"
    using assms(6) by (intro round_half_even_eval) simp
  then show ?thesis
    using assms(1,4,5,7) e by (simp add: rnd_def Let_def max_def)
qed

lemma as_real_as_float: "as_real v = Some x \<Longrightarrow> as_float v = Some (Fin x)"
  by (cases v) auto

lemma float_max0_nonneg: "float_le (Fin 0) (float_max0 x)"
  by (cases x) (auto simp: float_max0_def float_le_def)

lemmas float_ops = fdiv.simps fmul.simps fadd.simps float_round2.simps

subsection \<open>Proration\<close>

text \<open>
  The operations of two proration calls, one by one: from the premium to the elite plan
  with 10 of 30 days used, and from the basic to the premium plan with 39 of 40.
\<close>

lemma is_double_30: "is_double 30"
  unfolding is_double_def using rnd_eval [of 30 4 8444249301319680] by simp

lemma is_double_10: "is_double 10"
  unfolding is_double_def using rnd_eval [of 10 3 5629499534213120] by simp

lemma daily_rate_premium_30: "fdiv (Fin 999) (Fin 30) = Fin (2343279181116211 / 70368744177664)"
  using rnd_eval [of "999 / 30" 5 4686558362232422] by (simp add: powr_minus)

lemma remaining_days_30_10: "fsub (Fin 30) (Fin 10) = Fin 20"
  using rnd_eval [of "30 - 10" 4 5629499534213120] by (simp add: powr_minus fsub_def)

lemma remaining_premium_30_10: "fmul (Fin (2343279181116211 / 70368744177664)) (Fin 20) = Fin 666"
  using rnd_eval [of "(2343279181116211 / 70368744177664) * 20" 9 5858197952790528] by (simp add: powr_minus)

lemma daily_rate_elite_30: "fdiv (Fin 1999) (Fin 30) = Fin (4688903987038345 / 70368744177664)"
  using rnd_eval [of "1999 / 30" 6 4688903987038345] by (simp add: powr_minus)

lemma new_cost_elite_30_10: "fmul (Fin (4688903987038345 / 70368744177664)) (Fin 20) = Fin (5861129983797931 / 4398046511104)"
  using rnd_eval [of "(4688903987038345 / 70368744177664) * 20" 10 5861129983797931] by (simp add: powr_minus)

lemma proration_premium_elite: "fsub (Fin (5861129983797931 / 4398046511104)) (Fin 666) = Fin (2932031007402667 / 4398046511104)"
  using rnd_eval [of "(5861129983797931 / 4398046511104) - 666" 9 5864062014805334] by (simp add: powr_minus fsub_def)

lemma round2_proration_premium_elite: "float_round2 (Fin (2932031007402667 / 4398046511104)) = Fin (5864091335115407 / 8796093022208)"
proof -
  have "round_half_even (2932031007402667 / 4398046511104 * 100) = 66667"
    by (rule round_half_even_eval) simp
  then show ?thesis
    using rnd_eval [of "66667 / 100" 9 5864091335115407] by (simp add: powr_minus)
qed

lemma round2_credit_premium_elite: "float_round2 (Fin (- (2932031007402667 / 4398046511104))) = Fin (- (5864091335115407 / 8796093022208))"
proof -
  have "round_half_even (- (2932031007402667 / 4398046511104) * 100) = - 66667"
    by (rule round_half_even_eval) simp
  then show ?thesis
    using rnd_eval [of "- (66667 / 100)" 9 "- 5864091335115407"] by (simp add: powr_minus)
qed

lemma round2_remaining_premium: "float_round2 (Fin 666) = Fin 666"
proof -
  have "round_half_even (666 * 100) = 66600"
    by (rule round_half_even_eval) simp
  then show ?thesis
    using rnd_eval [of "666" 9 5858197952790528] by (simp add: powr_minus)
qed

lemma is_double_40: "is_double 40"
  unfolding is_double_def using rnd_eval [of 40 5 5629499534213120] by simp

lemma is_double_39: "is_double 39"
  unfolding is_double_def using rnd_eval [of 39 5 5488762045857792] by simp

lemma daily_rate_basic_40: "fdiv (Fin 499) (Fin 40) = Fin (7022800668930867 / 562949953421312)"
  using rnd_eval [of "499 / 40" 3 7022800668930867] by (simp add: powr_minus)

lemma remaining_days_40_39: "fsub (Fin 40) (Fin 39) = Fin 1"
  using rnd_eval [of "40 - 39" 0 4503599627370496] by (simp add: powr_minus fsub_def)

lemma remaining_basic_40_39: "fmul (Fin (7022800668930867 / 562949953421312)) (Fin 1) = Fin (7022800668930867 / 562949953421312)"
  using rnd_eval [of "(7022800668930867 / 562949953421312) * 1" 3 7022800668930867] by (simp add: powr_minus)

lemma daily_rate_premium_40: "fdiv (Fin 999) (Fin 40) = Fin (3514918771674317 / 140737488355328)"
  using rnd_eval [of "999 / 40" 4 7029837543348634] by (simp add: powr_minus)

lemma new_cost_premium_40_39: "fmul (Fin (3514918771674317 / 140737488355328)) (Fin 1) = Fin (3514918771674317 / 140737488355328)"
  using rnd_eval [of "(3514918771674317 / 140737488355328) * 1" 4 7029837543348634] by (simp add: powr_minus)

lemma proration_basic_premium: "fsub (Fin (3514918771674317 / 140737488355328)) (Fin (7022800668930867 / 562949953421312)) = Fin (7036874417766401 / 562949953421312)"
  using rnd_eval [of "(3514918771674317 / 140737488355328) - (7022800668930867 / 562949953421312)" 3 7036874417766401] by (simp add: powr_minus fsub_def)

lemma round2_proration_basic_premium: "float_round2 (Fin (7036874417766401 / 562949953421312)) = Fin (25 / 2)"
proof -
  have "round_half_even (7036874417766401 / 562949953421312 * 100) = 1250"
    by (rule round_half_even_eval) simp
  then show ?thesis
    using rnd_eval [of "25 / 2" 3 7036874417766400] by (simp add: powr_minus)
qed

lemma round2_credit_basic_premium: "float_round2 (Fin (- (7036874417766401 / 562949953421312))) = Fin (- (25 / 2))"
proof -
  have "round_half_even (- (7036874417766401 / 562949953421312) * 100) = - 1250"
    by (rule round_half_even_eval) simp
  then show ?thesis
    using rnd_eval [of "- (25 / 2)" 3 "- 7036874417766400"] by (simp add: powr_minus)
qed

lemma round2_remaining_basic: "float_round2 (Fin (7022800668930867 / 562949953421312)) = Fin (7019985919163761 / 562949953421312)"
proof -
  have "round_half_even (7022800668930867 / 562949953421312 * 100) = 1247"
    by (rule round_half_even_eval) simp
  then show ?thesis
    using rnd_eval [of "1247 / 100" 3 7019985919163761] by (simp add: powr_minus)
qed

lemma rnd_666_67: "rnd (66667 / 100) = Fin (5864091335115407 / 8796093022208)"
  using rnd_eval [of "66667 / 100" 9 5864091335115407] by simp

lemma rnd_12_47: "rnd (1247 / 100) = Fin (7019985919163761 / 562949953421312)"
  using rnd_eval [of "1247 / 100" 3 7019985919163761] by simp

text \<open>
  Claim C10. With a current plan whose price is not zero, day counts that are doubles
  (every float and every integer up to \<open>2 ^ 53\<close> is one), a period that is not empty and a
  next billing date within the calendar, the proration call returns, each operation
  being that of floating-point arithmetic: the remaining value is
  \<open>(currentPrice / daysInPeriod) * remainingDays\<close>, the new cost is
  \<open>(newPrice / daysInPeriod) * remainingDays\<close>, the proration is their difference, the
  amount due is the proration and the credit its negation, each rounded to two decimals
  and clamped at zero from below, and the reported remaining value is rounded to two
  decimals. For the premium plan (999) over 30 days with 10 days used and the elite plan
  (1999) as the new plan, the amount due is the float 666.67, the credit 0 and the
  remaining value 666.
\<close>

theorem calculate_proration_formula:
  "(monthly_price_of (py_get payload ''current_plan'' (PStr ''free'')) = Inr cur \<and> cur \<noteq> 0 \<and>
    monthly_price_of (py_get payload ''new_plan'' PNone) = Inr new \<and>
    as_real (py_get payload ''days_in_period'' (PNum 30)) = Some dip \<and> dip \<noteq> 0 \<and>
    is_double dip \<and>
    as_real (py_get payload ''days_used'' (PNum 0)) = Some du \<and> is_double du \<and>
    fsub (Fin dip) (Fin du) = Fin days \<and> 0 \<le> now \<and> now < 3652059 \<and>
    0 \<le> now + days \<and> now + days < 3652059 \<longrightarrow>
    (\<exists>r. calculate_proration now payload = Inr r \<and>
         remaining_value r =
           Some (float_round2 (fmul (fdiv (Fin cur) (Fin dip)) (Fin days))) \<and>
         proration_amount r =
           float_max0 (float_round2
             (fsub (fmul (fdiv (Fin new) (Fin dip)) (Fin days))
                   (fmul (fdiv (Fin cur) (Fin dip)) (Fin days)))) \<and>
         credit_amount r =
           float_max0 (float_round2 (fneg
             (fsub (fmul (fdiv (Fin new) (Fin dip)) (Fin days))
                   (fmul (fdiv (Fin cur) (Fin dip)) (Fin days))))) \<and>
         float_le (Fin 0) (proration_amount r) \<and> float_le (Fin 0) (credit_amount r))) \<and>
   (0 \<le> t \<and> t + 20 < 3652059 \<longrightarrow>
    (\<exists>r. calculate_proration t
            [(''current_plan'', PStr ''premium''), (''new_plan'', PStr ''elite''),
             (''days_used'', PNum 10), (''days_in_period'', PNum 30)] = Inr r \<and>
         proration_amount r = rnd (66667 / 100) \<and> credit_amount r = Fin 0 \<and>
         remaining_value r = Some (Fin 666)))"
proof (intro conjI impI)
  assume h: "monthly_price_of (py_get payload ''current_plan'' (PStr ''free'')) = Inr cur \<and> cur \<noteq> 0 \<and>
    monthly_price_of (py_get payload ''new_plan'' PNone) = Inr new \<and>
    as_real (py_get payload ''days_in_period'' (PNum 30)) = Some dip \<and> dip \<noteq> 0 \<and>
    is_double dip \<and>
    as_real (py_get payload ''days_used'' (PNum 0)) = Some du \<and> is_double du \<and>
    fsub (Fin dip) (Fin du) = Fin days \<and> 0 \<le> now \<and> now < 3652059 \<and>
    0 \<le> now + days \<and> now + days < 3652059"
  then have f: "as_float (py_get payload ''days_in_period'' (PNum 30)) = Some (Fin dip)"
    "as_float (py_get payload ''days_used'' (PNum 0)) = Some (Fin du)"
    by (simp_all add: as_real_as_float)
  from h f show "\<exists>r. calculate_proration now payload = Inr r \<and>
         remaining_value r =
           Some (float_round2 (fmul (fdiv (Fin cur) (Fin dip)) (Fin days))) \<and>
         proration_amount r =
           float_max0 (float_round2
             (fsub (fmul (fdiv (Fin new) (Fin dip)) (Fin days))
                   (fmul (fdiv (Fin cur) (Fin dip)) (Fin days)))) \<and>
         credit_amount r =
           float_max0 (float_round2 (fneg
             (fsub (fmul (fdiv (Fin new) (Fin dip)) (Fin days))
                   (fmul (fdiv (Fin cur) (Fin dip)) (Fin days))))) \<and>
         float_le (Fin 0) (proration_amount r) \<and> float_le (Fin 0) (credit_amount r)"
    by (simp add: calculate_proration_def float_arg_def add_days_def Let_def float_max0_nonneg
        del: float_ops)
next
  assume "0 \<le> t \<and> t + 20 < 3652059"
  then show "\<exists>r. calculate_proration t
            [(''current_plan'', PStr ''premium''), (''new_plan'', PStr ''elite''),
             (''days_used'', PNum 10), (''days_in_period'', PNum 30)] = Inr r \<and>
         proration_amount r = rnd (66667 / 100) \<and> credit_amount r = Fin 0 \<and>
         remaining_value r = Some (Fin 666)"
    unfolding rnd_666_67
    by (simp add: calculate_proration_def py_get_def monthly_price_of_def
        SUBSCRIPTION_PLANS_def float_arg_def add_days_def Let_def float_max0_def
        daily_rate_premium_30 remaining_days_30_10 remaining_premium_30_10
        daily_rate_elite_30 new_cost_elite_30_10 proration_premium_elite
        round2_proration_premium_elite round2_credit_premium_elite round2_remaining_premium
        del: float_ops)
qed

theorem calculate_proration_formula_witness:
  "\<exists>r. calculate_proration 739000
          [(''current_plan'', PStr ''basic''), (''new_plan'', PStr ''premium''),
           (''days_used'', PNum 39), (''days_in_period'', PNum 40)] = Inr r \<and>
       remaining_value r = Some (rnd (1247 / 100)) \<and> proration_amount r = Fin (25 / 2) \<and>
       credit_amount r = Fin 0"
proof -
  let ?p = "[(''current_plan'', PStr ''basic''), (''new_plan'', PStr ''premium''),
             (''days_used'', PNum 39), (''days_in_period'', PNum 40)]"
  have hyp: "monthly_price_of (py_get ?p ''current_plan'' (PStr ''free'')) = Inr 499 \<and>
    (499::real) \<noteq> 0 \<and>
    monthly_price_of (py_get ?p ''new_plan'' PNone) = Inr 999 \<and>
    as_real (py_get ?p ''days_in_period'' (PNum 30)) = Some 40 \<and> (40::real) \<noteq> 0 \<and>
    is_double 40 \<and>
    as_real (py_get ?p ''days_used'' (PNum 0)) = Some 39 \<and> is_double 39 \<and>
    fsub (Fin 40) (Fin 39) = Fin 1 \<and> 0 \<le> (739000::real) \<and> (739000::real) < 3652059 \<and>
    0 \<le> (739000::real) + 1 \<and> (739000::real) + 1 < 3652059"
    by (simp add: py_get_def monthly_price_of_def SUBSCRIPTION_PLANS_def is_double_40
        is_double_39 remaining_days_40_39 del: float_ops)
  from calculate_proration_formula [of ?p 499 999 40 39 1 739000 0] hyp
  obtain r where r: "calculate_proration 739000 ?p = Inr r"
    "remaining_value r = Some (float_round2 (fmul (fdiv (Fin 499) (Fin 40)) (Fin 1)))"
    "proration_amount r =
       float_max0 (float_round2
         (fsub (fmul (fdiv (Fin 999) (Fin 40)) (Fin 1)) (fmul (fdiv (Fin 499) (Fin 40)) (Fin 1))))"
    "credit_amount r =
       float_max0 (float_round2 (fneg
         (fsub (fmul (fdiv (Fin 999) (Fin 40)) (Fin 1)) (fmul (fdiv (Fin 499) (Fin 40)) (Fin 1)))))"
    by blast
  have "remaining_value r = Some (rnd (1247 / 100))"
    unfolding r(2) rnd_12_47
    by (simp only: daily_rate_basic_40 remaining_basic_40_39 round2_remaining_basic)
  moreover have "proration_amount r = Fin (25 / 2)"
    unfolding r(3)
    by (simp add: daily_rate_basic_40 remaining_basic_40_39 daily_rate_premium_40
        new_cost_premium_40_39 proration_basic_premium round2_proration_basic_premium
        float_max0_def del: float_ops)
  moreover have "credit_amount r = Fin 0"
    unfolding r(4)
    by (simp add: daily_rate_basic_40 remaining_basic_40_39 daily_rate_premium_40
        new_cost_premium_40_39 proration_basic_premium round2_credit_basic_premium
        float_max0_def del: float_ops)
  ultimately show ?thesis
    using r(1) by blast
qed

subsection \<open>Orchestrator\<close>

text \<open>
  Claim C1. A batch of three requests whose second request names an agent that is not
  registered, and whose first and third name registered agents: \<open>execute_parallel\<close>
  makes no task for the second request, and returns the two envelopes of the first and
  the third, in that order. The list has length 2, and its second item is the result of
  the third request.
\<close>

theorem execute_parallel_skips_unregistered:
  assumes "find_agent agents (py_get r1 ''agent'' PNone) = Inr (Some a1)"
    and "find_agent agents (py_get r2 ''agent'' PNone) = Inr None"
    and "find_agent agents (py_get r3 ''agent'' PNone) = Inr (Some a3)"
  shows "execute_parallel agents [r1, r2, r3] =
           Inr [agent_execute a1 (py_get r1 ''action'' PNone) (py_get r1 ''payload'' (PDict [])),
                agent_execute a3 (py_get r3 ''action'' PNone) (py_get r3 ''payload'' (PDict []))]"
  using assms by (simp add: execute_parallel_def)

theorem execute_parallel_skips_unregistered_witness:
  "execute_parallel (register_agents (\<lambda>v. []) (\<lambda>a m p. Inr (PDict [])) (\<lambda>a p. 0))
     [ [(''agent'', PStr ''safety''), (''action'', PStr ''analyze_image''),
       (''payload'', PDict [(''action'', PStr ''analyze_image'')])],
      [(''agent'', PStr ''moderation''), (''action'', PStr ''analyze_image''),
       (''payload'', PDict [(''action'', PStr ''analyze_image'')])],
      [(''agent'', PStr ''matching''), (''action'', PStr ''rank_candidates''),
       (''payload'', PDict [(''action'', PStr ''rank_candidates'')])]] =
   Inr [ [(''success'', PBool True), (''agent_name'', PStr ''safety''),
         (''action'', PStr ''analyze_image''), (''result'', PDict []),
         (''execution_time_ms'', PNum 0)],
        [(''success'', PBool True), (''agent_name'', PStr ''matching''),
         (''action'', PStr ''rank_candidates''), (''result'', PDict []),
         (''execution_time_ms'', PNum 0)]]"
proof -
  let ?reg = "register_agents (\<lambda>v. []) (\<lambda>a m p. Inr (PDict [])) (\<lambda>a p. 0)"
  let ?r1 = "[(''agent'', PStr ''safety''), (''action'', PStr ''analyze_image''),
       (''payload'', PDict [(''action'', PStr ''analyze_image'')])]"
  let ?r2 = "[(''agent'', PStr ''moderation''), (''action'', PStr ''analyze_image''),
       (''payload'', PDict [(''action'', PStr ''analyze_image'')])]"
  let ?r3 = "[(''agent'', PStr ''matching''), (''action'', PStr ''rank_candidates''),
       (''payload'', PDict [(''action'', PStr ''rank_candidates'')])]"
  have h1: "find_agent ?reg (py_get ?r1 ''agent'' PNone) =
      Inr (Some \<lparr>agent_name = ''safety'',
                 agent_process = process_safety (\<lambda>v. []) (\<lambda>m p. Inr (PDict [])),
                 agent_elapsed = (\<lambda>p. 0)\<rparr>)"
    by (simp add: find_agent_def register_agents_def registered_def py_get_def)
  have h2: "find_agent ?reg (py_get ?r2 ''agent'' PNone) = Inr None"
    by (simp add: find_agent_def register_agents_def registered_def py_get_def)
  have h3: "find_agent ?reg (py_get ?r3 ''agent'' PNone) =
      Inr (Some \<lparr>agent_name = ''matching'',
                 agent_process = process_matching (\<lambda>v. []) (\<lambda>m p. Inr (PDict [])),
                 agent_elapsed = (\<lambda>p. 0)\<rparr>)"
    by (simp add: find_agent_def register_agents_def registered_def py_get_def)
  show ?thesis
    unfolding execute_parallel_skips_unregistered [OF h1 h2 h3]
    by (simp add: agent_execute_def execute_def py_get_def process_safety_def
        process_matching_def)
qed

text \<open>
  In general the result of \<open>execute_parallel\<close> has one item for each request whose agent
  is registered, so it is shorter than the batch as soon as one agent is not.
\<close>

lemma make_tasks_length:
  "make_tasks agents requests = Inr tasks \<Longrightarrow>
   length tasks =
     length (filter (\<lambda>req. \<exists>a. find_agent agents (py_get req ''agent'' PNone) = Inr (Some a))
               requests)"
proof (induction requests arbitrary: tasks)
  case Nil
  then show ?case by simp
next
  case (Cons req reqs)
  then show ?case
    by (auto split: sum.splits option.splits)
qed

lemma process_results_length: "length (process_results requests i results) = length results"
  by (induction results arbitrary: i) auto

lemma execute_parallel_length:
  "execute_parallel agents requests = Inr out \<Longrightarrow>
   length out =
     length (filter (\<lambda>req. \<exists>a. find_agent agents (py_get req ''agent'' PNone) = Inr (Some a))
               requests)"
  by (auto simp: execute_parallel_def process_results_length make_tasks_length
      split: sum.splits)




subsection \<open>Unknown actions\<close>

lemma py_str_PStr: "py_str fmt (PStr s) = s"
  by (simp add: py_str_def)

lemma registered_cases:
  assumes "map_of registered name = Some process"
  shows "(name = ''user_profile'' \<and> process = process_user_profile) \<or>
         (name = ''matching'' \<and> process = process_matching) \<or>
         (name = ''conversation'' \<and> process = process_conversation) \<or>
         (name = ''safety'' \<and> process = process_safety) \<or>
         (name = ''fraud_detection'' \<and> process = process_fraud_detection) \<or>
         (name = ''image_verification'' \<and> process = process_image_verification) \<or>
         (name = ''subscription'' \<and> process = process_subscription) \<or>
         (name = ''analytics'' \<and> process = process_analytics) \<or>
         (name = ''admin'' \<and> process = process_admin)"
  using assms unfolding registered_def
  by (simp split: if_splits)

lemmas process_defs =
  process_user_profile_def process_matching_def process_conversation_def process_safety_def
  process_fraud_detection_def process_image_verification_def process_subscription_def
  process_analytics_def process_admin_def

lemma process_unknown_action:
  assumes "map_of registered name = Some process"
    and "py_get p ''action'' PNone = PStr act"
    and "act \<notin> set (known_actions name)"
  shows "process fmt h (PDict p) =
           Inr (PDict [(''error'', PStr (''Unknown action: '' @ act))])"
  using registered_cases [OF assms(1)] assms(2,3)
  by (elim disjE conjE; simp add: process_defs known_actions_def unknown_action_def py_str_PStr)

text \<open>
  The actions of \<open>known_actions\<close> are the ones an agent has a handler for: on each of them
  \<^verbatim>\<open>process\<close> returns what the handler of that name returns.
\<close>

lemma process_known_action:
  assumes "map_of registered name = Some process"
    and "py_get p ''action'' PNone = PStr act"
    and "act \<in> set (known_actions name)"
  shows "process fmt h (PDict p) = h (''_'' @ act) p"
  using registered_cases [OF assms(1)] assms(2,3)
  by (elim disjE conjE; auto simp: process_defs known_actions_def)

text \<open>
  Claim C6. For each of the nine registered agents and every payload whose action is a
  string the agent has no handler for, \<^verbatim>\<open>process\<close> returns the map
  \<^verbatim>\<open>{"error": "Unknown action: <action>"}\<close> without raising, and \<^verbatim>\<open>execute\<close> wraps it in
  an envelope with \<^verbatim>\<open>success=true\<close> and that map as the result.
\<close>

theorem unknown_action_is_normal_result:
  assumes "register_agents fmt hs clock name = Some a"
    and "py_get p ''action'' PNone = PStr act"
    and "act \<notin> set (known_actions name)"
  shows "agent_process a (PDict p) =
           Inr (PDict [(''error'', PStr (''Unknown action: '' @ act))]) \<and>
         agent_execute a action (PDict p) =
           [(''success'', PBool True), (''agent_name'', PStr name), (''action'', action),
            (''result'', PDict [(''error'', PStr (''Unknown action: '' @ act))]),
            (''execution_time_ms'', PNum (real (clock name (PDict p))))]"
proof -
  from assms(1) obtain process where reg: "map_of registered name = Some process"
    and a: "a = \<lparr>agent_name = name, agent_process = process fmt (hs name),
                 agent_elapsed = clock name\<rparr>"
    by (auto simp: register_agents_def split: option.splits)
  have "process fmt (hs name) (PDict p) =
          Inr (PDict [(''error'', PStr (''Unknown action: '' @ act))])"
    using reg assms(2,3) by (rule process_unknown_action)
  with a show ?thesis
    by (simp add: agent_execute_def execute_def)
qed

theorem unknown_action_is_normal_result_witness:
  "register_agents (\<lambda>v. []) (\<lambda>a m p. Inl (Raised ''LLM client not initialized'')) (\<lambda>a p. 7)
     ''matching'' =
     Some \<lparr>agent_name = ''matching'',
           agent_process =
             process_matching (\<lambda>v. []) (\<lambda>m p. Inl (Raised ''LLM client not initialized'')),
           agent_elapsed = (\<lambda>p. 7)\<rparr> \<and>
   agent_execute
     \<lparr>agent_name = ''matching'',
      agent_process =
        process_matching (\<lambda>v. []) (\<lambda>m p. Inl (Raised ''LLM client not initialized'')),
      agent_elapsed = (\<lambda>p. 7)\<rparr>
     (PStr ''get_recommendations'') (PDict [(''action'', PStr ''get_recommendations'')]) =
     [(''success'', PBool True), (''agent_name'', PStr ''matching''),
      (''action'', PStr ''get_recommendations''),
      (''result'', PDict [(''error'', PStr ''Unknown action: get_recommendations'')]),
      (''execution_time_ms'', PNum 7)]"
proof -
  let ?hs = "\<lambda>a m p. Inl (Raised ''LLM client not initialized'')"
  let ?a = "\<lparr>agent_name = ''matching'',
              agent_process =
                process_matching (\<lambda>v. []) (\<lambda>m p. Inl (Raised ''LLM client not initialized'')),
              agent_elapsed = (\<lambda>p. 7)\<rparr>"
  let ?p = "[(''action'', PStr ''get_recommendations'')]"
  have h1: "register_agents (\<lambda>v. []) ?hs (\<lambda>a p. 7) ''matching'' = Some ?a"
    by (simp add: register_agents_def registered_def)
  have h2: "py_get ?p ''action'' PNone = PStr ''get_recommendations''"
    by (simp add: py_get_def)
  have h3: "''get_recommendations'' \<notin> set (known_actions ''matching'')"
    by (simp add: known_actions_def)
  from unknown_action_is_normal_result [OF h1 h2 h3, of "PStr ''get_recommendations''"] h1
  show ?thesis
    by simp
qed

subsection \<open>Content moderation\<close>

lemma map_of_py_set: "map_of (py_set d k v) = (map_of d)(k \<mapsto> v)"
  by (simp add: py_set_def update_conv')

lemma py_get_py_set: "py_get (py_set d k v) k' dflt = (if k' = k then v else py_get d k' dflt)"
  by (simp add: py_get_def map_of_py_set)

lemma py_lt_num: "as_real v = Some x \<Longrightarrow> py_lt v (PNum c) = Inr (x < c)"
  by (cases v) (auto simp: py_lt_def)

lemma py_lt_PNum:
  "py_lt v (PNum c) =
     (case as_float v of None \<Rightarrow> Inl TypeError | Some x \<Rightarrow> Inr (float_lt x (Fin c)))"
  by (cases v) (auto simp: py_lt_def)

lemma py_min_half:
  "as_real v = Some y \<Longrightarrow> py_min v (PNum (1 / 2)) = Inr (if 1 / 2 < y then PNum (1 / 2) else v)"
  by (cases v) (auto simp: py_min_def py_lt_def)

text \<open>
  The result of a moderation call whose language-model call returns a text that parses
  to a dictionary with a numeric safety score \<open>y\<close> (1 when the key is absent): the merged
  dictionary, with the action set from the merged score.
\<close>

lemma moderate_content_result:
  assumes content: "py_get payload ''content'' (PStr []) = PStr text"
    and llm: "call_llm text (py_get payload ''content_type'' (PStr ''text''))
                (py_get payload ''context'' (PStr ''general'')) = Inr response"
    and parsed: "parse_json_response loads (llm_content response) = PDict reported"
    and numeric: "as_real (py_get reported ''safety_score'' (PNum 1)) = Some y"
  shows "moderate_content loads lower call_llm payload =
           (let kf = check_keywords (lower text);
                merged =
                  (if kf \<noteq> [] then
                     py_set
                       (py_set (py_set reported ''keyword_flags'' (PList (map PStr kf)))
                          ''is_safe'' (PBool False))
                       ''safety_score''
                       (if 1 / 2 < y then PNum (1 / 2)
                        else py_get reported ''safety_score'' (PNum 1))
                   else reported);
                counted = py_set merged ''tokens_used'' (PNum (real (llm_tokens_used response)));
                x = (if kf \<noteq> [] then min y (1 / 2) else y)
            in Inr (PDict
                 (if x < 3 / 10 then py_set counted ''action'' (PStr ''block'')
                  else if x < 6 / 10 then py_set counted ''action'' (PStr ''flag'')
                  else if py_eq (py_get counted ''severity'' PNone) (PStr ''critical'')
                  then py_set counted ''action'' (PStr ''escalate'')
                  else counted)))"
  using assms py_min_half [OF numeric] as_real_as_float [OF numeric]
  by (auto simp: moderate_content_def Let_def py_get_py_set py_lt_PNum min_def)


text \<open>
  A moderation call returns a result only if its content is a string, the call to the
  language model returns, and the response parses to a dictionary whose safety score is
  a number, an infinity, \<^verbatim>\<open>nan\<close> or absent. In every other case it raises.
\<close>

lemma py_lt_PNum_left:
  "py_lt (PNum c) v =
     (case as_float v of None \<Rightarrow> Inl TypeError | Some x \<Rightarrow> Inr (float_lt (Fin c) x))"
  by (cases v) (auto simp: py_lt_def)

lemma moderate_content_returns_only_if:
  assumes "moderate_content loads lower call_llm payload = Inr r"
  shows "\<exists>text response reported y.
           py_get payload ''content'' (PStr []) = PStr text \<and>
           call_llm text (py_get payload ''content_type'' (PStr ''text''))
             (py_get payload ''context'' (PStr ''general'')) = Inr response \<and>
           parse_json_response loads (llm_content response) = PDict reported \<and>
           as_float (py_get reported ''safety_score'' (PNum 1)) = Some y"
proof -
  from assms obtain t where c: "py_get payload ''content'' (PStr []) = PStr t"
    by (auto simp: moderate_content_def split: pyval.splits)
  from assms c obtain response where
    l: "call_llm t (py_get payload ''content_type'' (PStr ''text''))
             (py_get payload ''context'' (PStr ''general'')) = Inr response"
    by (auto simp: moderate_content_def Let_def split: sum.splits)
  from assms c l obtain reported where
    p: "parse_json_response loads (llm_content response) = PDict reported"
    by (auto simp: moderate_content_def Let_def split: pyval.splits)
  have "as_float (py_get reported ''safety_score'' (PNum 1)) \<noteq> None"
  proof
    assume n: "as_float (py_get reported ''safety_score'' (PNum 1)) = None"
    show False
      using assms c l p n
      by (auto simp: moderate_content_def Let_def py_min_def py_lt_PNum py_lt_PNum_left
          py_get_py_set split: if_splits)
  qed
  with c l p show ?thesis by blast
qed

text \<open>
  A moderation call whose content contains a listed toxic term, whose language-model
  call returns, and whose response parses to a dictionary with any \<^verbatim>\<open>is_safe\<close> and a
  safety score \<open>y\<close> that is a finite number (or absent, which counts as 1): the call
  returns a merged result with \<^verbatim>\<open>is_safe=false\<close> and the safety score \<open>min y 0.5\<close>, which
  is at most 0.5 and at most \<open>y\<close>.
\<close>

lemma moderate_content_caps_finite_score:
  assumes "py_get payload ''content'' (PStr []) = PStr text"
    and "check_keywords (lower text) \<noteq> []"
    and "call_llm text (py_get payload ''content_type'' (PStr ''text''))
           (py_get payload ''context'' (PStr ''general'')) = Inr response"
    and "parse_json_response loads (llm_content response) = PDict reported"
    and "as_real (py_get reported ''safety_score'' (PNum 1)) = Some y"
  shows "\<exists>d. moderate_content loads lower call_llm payload = Inr (PDict d) \<and>
           py_get d ''is_safe'' PNone = PBool False \<and>
           as_real (py_get d ''safety_score'' PNone) = Some (min y (1 / 2)) \<and>
           min y (1 / 2) \<le> 1 / 2 \<and> min y (1 / 2) \<le> y"
proof -
  have "as_real (if 1 / 2 < y then PNum (1 / 2) else py_get reported ''safety_score'' (PNum 1)) =
          Some (min y (1 / 2))"
    using assms(5) by (simp add: min_def)
  then show ?thesis
    unfolding moderate_content_result
      [where call_llm = call_llm and loads = loads and lower = lower, OF assms(1,3,4,5)]
    using assms(2)
    by (auto simp: Let_def py_get_py_set min_def)
qed

text \<open>
  Claim C2. The claim fails when the language model reports the safety score \<^verbatim>\<open>NaN\<close>,
  which the JSON decoder accepts. For the content \<^verbatim>\<open>I HATE you\<close>, in which the keyword
  scan finds a toxic term, and the response
  \<^verbatim>\<open>{"is_safe": true, "safety_score": NaN, "action": "allow"}\<close>, the merged result has
  \<^verbatim>\<open>is_safe=false\<close>, but its safety score is \<^verbatim>\<open>nan\<close>, which is not at most 0.5:
  \<^verbatim>\<open>min(nan, 0.5)\<close> is \<^verbatim>\<open>nan\<close>. No threshold applies to it, and the action stays the
  \<^verbatim>\<open>allow\<close> of the language model.
\<close>

theorem moderate_content_nan_score:
  \<open>moderate_content json_loads ascii_lower
     (\<lambda>t ct cx. Inr \<lparr>llm_content =
                        ''{"is_safe": true, "safety_score": NaN, "action": "allow"}'',
                      llm_tokens_used = 57, llm_model = ''gpt-4''\<rparr>)
     [(''content'', PStr ''I HATE you'')] =
   Inr (PDict [(''is_safe'', PBool False), (''safety_score'', PNaN), (''action'', PStr ''allow''),
               (''keyword_flags'', PList [PStr ''contains_hate'']), (''tokens_used'', PNum 57)])
   \<and> py_le PNaN (PNum (1 / 2)) = Inr False\<close>
proof -
  have loads: \<open>json_loads ''{"is_safe": true, "safety_score": NaN, "action": "allow"}'' =
      Some (PDict [(''is_safe'', PBool True), (''safety_score'', PNaN),
                   (''action'', PStr ''allow'')])\<close>
    by code_simp
  have kf: "check_keywords (ascii_lower ''I HATE you'') = [''contains_hate'']"
    by code_simp
  show ?thesis
    using loads kf
    by (simp add: moderate_content_def parse_json_response_def py_get_def py_set_def
        py_lt_def py_le_def py_min_def float_le_def Let_def)
qed




subsection \<open>Parsing a model response\<close>

text \<open>
  The stages of \<open>parse_json_response\<close>, for every decoder: the whole text first, then the
  inside of a fenced block, then the span of the braces, then the fallback.
\<close>

lemma parse_json_response_direct:
  "loads content = Some v \<Longrightarrow> parse_json_response loads content = v"
  by (simp add: parse_json_response_def)

lemma parse_json_response_fenced:
  "loads content = None \<Longrightarrow> fence_group content = Some g \<Longrightarrow> loads g = Some v \<Longrightarrow>
   parse_json_response loads content = v"
  by (simp add: parse_json_response_def)

lemma parse_json_response_braces:
  "loads content = None \<Longrightarrow>
   (case fence_group content of None \<Rightarrow> None | Some g \<Rightarrow> loads g) = None \<Longrightarrow>
   brace_span content = Some b \<Longrightarrow> loads b = Some v \<Longrightarrow>
   parse_json_response loads content = v"
  by (auto simp: parse_json_response_def split: option.splits)

lemma parse_json_response_fallback:
  "loads content = None \<Longrightarrow>
   (case fence_group content of None \<Rightarrow> None | Some g \<Rightarrow> loads g) = None \<Longrightarrow>
   (case brace_span content of None \<Rightarrow> None | Some b \<Rightarrow> loads b) = None \<Longrightarrow>
   parse_json_response loads content = PDict [(''raw_response'', PStr content)]"
  by (auto simp: parse_json_response_def split: option.splits)

lemma parse_json_response_not_json:
  "parse_json_response json_loads ''not json at all'' =
     PDict [(''raw_response'', PStr ''not json at all'')]"
  by code_simp

text \<open>
  Claim C5. The parse function does not always return a map: a text that is a JSON
  array decodes at the first stage, and the list is returned as it is. The same holds
  for an array inside a fenced block, and for a text that is a JSON number, string or
  \<^verbatim>\<open>null\<close>.
\<close>

theorem parse_json_response_returns_list:
  \<open>parse_json_response json_loads ''["hiking", "music"]'' = PList [PStr ''hiking'', PStr ''music'']\<close>
  by code_simp

lemma parse_json_response_fenced_list:
  \<open>parse_json_response json_loads (''Here you go: '' @ fence @ ''json [1, 2] '' @ fence) =
     PList [PNum 1, PNum 2]\<close>
  by code_simp

lemma parse_json_response_scalar:
  \<open>parse_json_response json_loads ''42'' = PNum 42 \<and>
   parse_json_response json_loads ''null'' = PNone\<close>
  by code_simp

subsection \<open>Preference alignment\<close>

text \<open>
  Claim C8. The location criterion is not excluded when the location fields are absent:
  \<^verbatim>\<open>user1.get("city") == user2.get("city")\<close> compares \<^verbatim>\<open>None\<close> with \<^verbatim>\<open>None\<close> and scores 1.0.
  For two profiles and preferences with no field at all, no criterion has its inputs, and
  the sub-score is 1.0, not the neutral 0.5.
\<close>

theorem calculate_preference_alignment_empty:
  "calculate_preference_alignment [] [] [] = Inr 1"
  by (simp add: calculate_preference_alignment_def py_get_def)

text \<open>
  In general, whenever neither profile has a city, the location criterion contributes
  1.0; with no age and no preference list it is the only score.
\<close>

lemma calculate_preference_alignment_no_inputs:
  assumes "map_of user1 ''age'' = None \<or> map_of user2 ''age'' = None"
    and "map_of user1 ''city'' = None" and "map_of user2 ''city'' = None"
    and "map_of preferences ''preferred_religions'' = None"
    and "map_of preferences ''preferred_education_levels'' = None"
  shows "calculate_preference_alignment user1 user2 preferences = Inr 1"
  using assms by (auto simp: calculate_preference_alignment_def py_get_def)

subsection \<open>Fraud sub-scores\<close>

text \<open>
  Every weight is a multiple of 0.05, so every raw score is a non-negative multiple of
  0.05 and every clamped score a multiple of 0.05 between 0 and 1.
\<close>

lemma add_flag_twentieth:
  assumes "\<exists>k::nat. snd st = real k / 20" and "w = real j / 20"
  shows "\<exists>k::nat. snd (add_flag c name w st) = real k / 20"
proof -
  from assms(1) obtain k where k: "snd st = real k / 20"
    by blast
  have "snd st + w = real (k + j) / 20"
    using k assms(2) by (simp add: add_divide_distrib)
  then have "\<exists>k::nat. snd st + w = real k / 20"
    by blast
  with assms(1) show ?thesis
    by (simp add: add_flag_def)
qed

lemma start_twentieth: "\<exists>k::nat. snd ([] :: string list, 0 :: real) = real k / 20"
  by (rule exI [of _ 0]) simp

lemma clamp_twentieth:
  assumes "\<exists>k::nat. x = real k / 20"
  shows "\<exists>k::nat. k \<le> 20 \<and> min x 1 = real k / 20"
proof -
  from assms obtain k where k: "x = real k / 20"
    by blast
  show ?thesis
  proof (cases "k \<le> 20")
    case True
    then have "min x 1 = real k / 20" using k by (simp add: min_def)
    with True show ?thesis by blast
  next
    case False
    then have "min x 1 = real (20::nat) / 20" using k by (simp add: min_def)
    then show ?thesis by blast
  qed
qed

lemma assess_profile_risk_score:
  assumes "assess_profile_risk profile = Inr r"
  shows "\<exists>k::nat. k \<le> 20 \<and> score r = real k / 20"
proof -
  from assms obtain c1 c2 c3 c4 where
    "score r = min (snd (add_flag c4 ''location_mismatch'' (25 / 100)
                     (add_flag c3 ''no_photos'' (2 / 10)
                       (add_flag c2 ''multiple_accounts_same_ip'' (4 / 10)
                         (add_flag c1 ''new_premium_account'' (3 / 10) ([], 0)))))) 1"
    by (auto simp: assess_profile_risk_def Let_def split: sum.splits)
  moreover have "\<exists>k::nat. snd (add_flag c4 ''location_mismatch'' (25 / 100)
                     (add_flag c3 ''no_photos'' (2 / 10)
                       (add_flag c2 ''multiple_accounts_same_ip'' (4 / 10)
                         (add_flag c1 ''new_premium_account'' (3 / 10) ([], 0))))) = real k / 20"
    by (rule add_flag_twentieth [where j = 5], rule add_flag_twentieth [where j = 4],
        rule add_flag_twentieth [where j = 8], rule add_flag_twentieth [where j = 6],
        rule start_twentieth) simp_all
  ultimately show ?thesis
    using clamp_twentieth by simp
qed

lemma assess_behavior_risk_score:
  assumes "assess_behavior_risk behavior_data = Inr r"
  shows "\<exists>k::nat. k \<le> 20 \<and> score r = real k / 20"
proof -
  from assms obtain c1 c2 c3 c4 c5 c6 where
    "score r = min (snd (add_flag c6 ''shares_external_links'' (4 / 10)
                     (add_flag c5 ''immediate_messaging'' (2 / 10)
                       (add_flag c4 ''copy_paste_messages'' (35 / 100)
                         (add_flag c3 ''indiscriminate_swiping'' (3 / 10)
                           (add_flag c2 ''high_message_velocity'' (2 / 10)
                             (add_flag c1 ''extremely_high_message_velocity'' (4 / 10)
                                ([], 0)))))))) 1"
    by (auto simp: assess_behavior_risk_def Let_def split: sum.splits)
  moreover have "\<exists>k::nat. snd (add_flag c6 ''shares_external_links'' (4 / 10)
                     (add_flag c5 ''immediate_messaging'' (2 / 10)
                       (add_flag c4 ''copy_paste_messages'' (35 / 100)
                         (add_flag c3 ''indiscriminate_swiping'' (3 / 10)
                           (add_flag c2 ''high_message_velocity'' (2 / 10)
                             (add_flag c1 ''extremely_high_message_velocity'' (4 / 10)
                                ([], 0))))))) = real k / 20"
    by (rule add_flag_twentieth [where j = 8], rule add_flag_twentieth [where j = 4],
        rule add_flag_twentieth [where j = 7], rule add_flag_twentieth [where j = 6],
        rule add_flag_twentieth [where j = 4], rule add_flag_twentieth [where j = 8],
        rule start_twentieth) simp_all
  ultimately show ?thesis
    using clamp_twentieth by simp
qed

lemma detect_suspicious_patterns_score:
  assumes "detect_suspicious_patterns profile behavior_data = Inr r"
  shows "\<exists>k::nat. k \<le> 20 \<and> score r = real k / 20"
proof -
  from assms obtain c1 c2 c3 c4 where
    "score r = min (snd (add_flag c4 ''requests_to_move_off_platform'' (3 / 10)
                     (add_flag c3 ''repeated_crisis_stories'' (35 / 100)
                       (add_flag c2 ''investment_mentions'' (4 / 10)
                         (add_flag c1 ''potential_love_bombing'' (5 / 10) ([], 0)))))) 1"
    by (auto simp: detect_suspicious_patterns_def Let_def split: sum.splits)
  moreover have "\<exists>k::nat. snd (add_flag c4 ''requests_to_move_off_platform'' (3 / 10)
                     (add_flag c3 ''repeated_crisis_stories'' (35 / 100)
                       (add_flag c2 ''investment_mentions'' (4 / 10)
                         (add_flag c1 ''potential_love_bombing'' (5 / 10) ([], 0))))) = real k / 20"
    by (rule add_flag_twentieth [where j = 6], rule add_flag_twentieth [where j = 7],
        rule add_flag_twentieth [where j = 8], rule add_flag_twentieth [where j = 10],
        rule start_twentieth) simp_all
  ultimately show ?thesis
    using clamp_twentieth by simp
qed

text \<open>Rounding to two decimals leaves a multiple of 0.01 as it is.\<close>

lemma py_round2_hundredth: "py_round2 (real n / 100) = real n / 100"
proof -
  have "real n / 100 * 100 = of_int (int n)" by simp
  then have "round_half_even (real n / 100 * 100) = int n"
    by (simp add: round_half_even_def Let_def del: of_int_of_nat_eq)
  then show ?thesis
    by (simp add: py_round2_def)
qed

lemma check_fraud_parts:
  assumes "check_fraud list_set payload = Inr r"
  shows "\<exists>profile behavior_data.
           assess_profile_risk profile = Inr (profile_risk r) \<and>
           assess_behavior_risk behavior_data = Inr (behavior_risk r) \<and>
           detect_suspicious_patterns profile behavior_data = Inr (pattern_risk r) \<and>
           risk_score r =
             py_round2 (4 / 10 * score (profile_risk r) + 4 / 10 * score (behavior_risk r) +
                        2 / 10 * score (pattern_risk r))"
  using assms by (fastforce simp: check_fraud_def Let_def split: sum.splits)

text \<open>
  Claim C9. Whenever the fraud check returns a report, each of its three sub-scores lies
  between 0 and 1, and the reported risk score is
  \<open>0.4 * profile + 0.4 * behavior + 0.2 * pattern\<close> (a multiple of 0.01, which the rounding
  to two decimals leaves as it is). With an extreme message velocity, copy-paste
  messages and external links the raw behaviour sum is 1.15 and the score is 1.
\<close>

theorem check_fraud_scores:
  "(check_fraud list_set payload = Inr r \<longrightarrow>
      0 \<le> score (profile_risk r) \<and> score (profile_risk r) \<le> 1 \<and>
      0 \<le> score (behavior_risk r) \<and> score (behavior_risk r) \<le> 1 \<and>
      0 \<le> score (pattern_risk r) \<and> score (pattern_risk r) \<le> 1 \<and>
      risk_score r =
        4 / 10 * score (profile_risk r) + 4 / 10 * score (behavior_risk r) +
        2 / 10 * score (pattern_risk r)) \<and>
   assess_behavior_risk
     [(''messages_per_hour'', PNum 60), (''duplicate_message_ratio'', PNum (9 / 10)),
      (''external_link_sharing'', PBool True)] =
     Inr \<lparr>score = 1,
          flags = [''extremely_high_message_velocity'', ''copy_paste_messages'',
                   ''shares_external_links''],
          confidence = 8 / 10\<rparr>"
proof (intro conjI impI)
  assume ret: "check_fraud list_set payload = Inr r"
  from check_fraud_parts [OF ret] obtain profile behavior_data where
    p: "assess_profile_risk profile = Inr (profile_risk r)"
    and b: "assess_behavior_risk behavior_data = Inr (behavior_risk r)"
    and q: "detect_suspicious_patterns profile behavior_data = Inr (pattern_risk r)"
    and rs: "risk_score r =
             py_round2 (4 / 10 * score (profile_risk r) + 4 / 10 * score (behavior_risk r) +
                        2 / 10 * score (pattern_risk r))"
    by blast
  from assess_profile_risk_score [OF p] obtain kp :: nat where
    kp: "kp \<le> 20" "score (profile_risk r) = real kp / 20" by blast
  from assess_behavior_risk_score [OF b] obtain kb :: nat where
    kb: "kb \<le> 20" "score (behavior_risk r) = real kb / 20" by blast
  from detect_suspicious_patterns_score [OF q] obtain kq :: nat where
    kq: "kq \<le> 20" "score (pattern_risk r) = real kq / 20" by blast
  show "0 \<le> score (profile_risk r)" using kp by simp
  show "score (profile_risk r) \<le> 1" using kp by simp
  show "0 \<le> score (behavior_risk r)" using kb by simp
  show "score (behavior_risk r) \<le> 1" using kb by simp
  show "0 \<le> score (pattern_risk r)" using kq by simp
  show "score (pattern_risk r) \<le> 1" using kq by simp
  have eq: "4 / 10 * score (profile_risk r) + 4 / 10 * score (behavior_risk r) +
        2 / 10 * score (pattern_risk r) = real (2 * kp + 2 * kb + kq) / 100"
    unfolding kp(2) kb(2) kq(2) by simp
  show "risk_score r =
        4 / 10 * score (profile_risk r) + 4 / 10 * score (behavior_risk r) +
        2 / 10 * score (pattern_risk r)"
    unfolding rs eq by (rule py_round2_hundredth)
next
  show "assess_behavior_risk
     [(''messages_per_hour'', PNum 60), (''duplicate_message_ratio'', PNum (9 / 10)),
      (''external_link_sharing'', PBool True)] =
     Inr \<lparr>score = 1,
          flags = [''extremely_high_message_velocity'', ''copy_paste_messages'',
                   ''shares_external_links''],
          confidence = 8 / 10\<rparr>"
    by (simp add: assess_behavior_risk_def py_get_def py_gt_def py_lt_def add_flag_def Let_def)
qed

theorem check_fraud_scores_witness:
  "\<exists>r. check_fraud remdups
          [(''profile'',
            PDict [(''account_age_days'', PNum 0), (''is_premium'', PBool True),
                   (''accounts_from_same_ip'', PNum 3), (''photo_count'', PNum 0),
                   (''ip_country'', PStr ''US''), (''profile_country'', PStr ''NP'')]),
           (''behavior_data'',
            PDict [(''messages_per_hour'', PNum 60), (''duplicate_message_ratio'', PNum (9 / 10)),
                   (''external_link_sharing'', PBool True)])] = Inr r \<and>
        score (profile_risk r) = 1 \<and> score (behavior_risk r) = 1 \<and>
        score (pattern_risk r) = 0 \<and> risk_score r = 8 / 10 \<and>
        recommended_action r = ''review''"
proof -
  let ?payload = "[(''profile'',
            PDict [(''account_age_days'', PNum 0), (''is_premium'', PBool True),
                   (''accounts_from_same_ip'', PNum 3), (''photo_count'', PNum 0),
                   (''ip_country'', PStr ''US''), (''profile_country'', PStr ''NP'')]),
           (''behavior_data'',
            PDict [(''messages_per_hour'', PNum 60), (''duplicate_message_ratio'', PNum (9 / 10)),
                   (''external_link_sharing'', PBool True)])]"
  have p: "assess_profile_risk
             [(''account_age_days'', PNum 0), (''is_premium'', PBool True),
              (''accounts_from_same_ip'', PNum 3), (''photo_count'', PNum 0),
              (''ip_country'', PStr ''US''), (''profile_country'', PStr ''NP'')] =
           Inr \<lparr>score = 1,
                flags = [''new_premium_account'', ''multiple_accounts_same_ip'', ''no_photos'',
                         ''location_mismatch''],
                confidence = 75 / 100\<rparr>"
    by (simp add: assess_profile_risk_def py_get_def py_gt_def py_lt_def add_flag_def Let_def)
  have b: "assess_behavior_risk
             [(''messages_per_hour'', PNum 60), (''duplicate_message_ratio'', PNum (9 / 10)),
              (''external_link_sharing'', PBool True)] =
           Inr \<lparr>score = 1,
                flags = [''extremely_high_message_velocity'', ''copy_paste_messages'',
                         ''shares_external_links''],
                confidence = 8 / 10\<rparr>"
    by (simp add: assess_behavior_risk_def py_get_def py_gt_def py_lt_def add_flag_def Let_def)
  have q: "detect_suspicious_patterns profile
             [(''messages_per_hour'', PNum 60), (''duplicate_message_ratio'', PNum (9 / 10)),
              (''external_link_sharing'', PBool True)] =
           Inr \<lparr>score = 0, flags = [], confidence = 7 / 10\<rparr>" for profile
    by (simp add: detect_suspicious_patterns_def py_get_def py_gt_def add_flag_def Let_def)
  obtain r where r: "check_fraud remdups ?payload = Inr r"
    and parts: "profile_risk r = \<lparr>score = 1,
                flags = [''new_premium_account'', ''multiple_accounts_same_ip'', ''no_photos'',
                         ''location_mismatch''],
                confidence = 75 / 100\<rparr>"
      "behavior_risk r = \<lparr>score = 1,
                flags = [''extremely_high_message_velocity'', ''copy_paste_messages'',
                         ''shares_external_links''],
                confidence = 8 / 10\<rparr>"
      "pattern_risk r = \<lparr>score = 0, flags = [], confidence = 7 / 10\<rparr>"
      "recommended_action r = ''review''"
    using p b q
    by (simp add: check_fraud_def as_dict_def Let_def py_get_def)
  from check_fraud_scores [of remdups ?payload r] r parts
  show ?thesis
    by simp
qed

text \<open>
  The fraud check returns a report whenever the profile and the behaviour data are
  dictionaries (or absent) and the fields it compares with a number are numbers or
  absent.
\<close>

lemma py_gt_PNum:
  "py_gt v (PNum c) =
     (case as_float v of None \<Rightarrow> Inl TypeError | Some x \<Rightarrow> Inr (float_lt (Fin c) x))"
  by (cases v) (auto simp: py_gt_def)

lemma check_fraud_returns:
  assumes "py_get payload ''profile'' (PDict []) = PDict profile"
    and "py_get payload ''behavior_data'' (PDict []) = PDict behavior_data"
    and "as_float (py_get profile ''account_age_days'' (PNum 0)) = Some n1"
    and "as_float (py_get profile ''accounts_from_same_ip'' (PNum 0)) = Some n2"
    and "as_float (py_get behavior_data ''messages_per_hour'' (PNum 0)) = Some n3"
    and "as_float (py_get behavior_data ''swipe_right_ratio'' (PNum (1 / 2))) = Some n4"
    and "as_float (py_get behavior_data ''duplicate_message_ratio'' (PNum 0)) = Some n5"
    and "as_float (py_get behavior_data ''avg_time_to_message_minutes'' (PNum 1000)) = Some n6"
    and "as_float (py_get behavior_data ''love_bombing_score'' (PNum 0)) = Some n7"
    and "as_float (py_get behavior_data ''investment_mentions'' (PNum 0)) = Some n8"
    and "as_float (py_get behavior_data ''crisis_mentions'' (PNum 0)) = Some n9"
    and "as_float (py_get behavior_data ''off_platform_requests'' (PNum 0)) = Some n10"
  shows "\<exists>r. check_fraud list_set payload = Inr r"
  using assms
  by (simp add: check_fraud_def as_dict_def assess_profile_risk_def assess_behavior_risk_def
      detect_suspicious_patterns_def py_gt_PNum py_lt_PNum Let_def)

subsection \<open>Vector similarity\<close>
















end
